theory Spec2Isabelle
  imports Complex_Main
begin

section \<open>Values shared by the scene manager and the draw-call builder\<close>

text \<open>
  The C++ \<^verbatim>\<open>float\<close> is modelled by \<^typ>\<open>real\<close>: the code under study stores, copies and
  forwards float values; the only arithmetic on them happens inside the glm library,
  which is a parameter of the model (see \<open>glm\<close> below). A literal such as
  \<^verbatim>\<open>0.298f\<close> stands for the decimal it is written as.

  \<^verbatim>\<open>glm::vec2\<close>, \<^verbatim>\<open>glm::vec3\<close> and \<^verbatim>\<open>glm::vec4\<close> are plain
  tuples of floats with components \<^verbatim>\<open>x y z w\<close>.
\<close>

datatype vec2 = vec2 (vec2_x: real) (vec2_y: real)

datatype vec3 = vec3 (vec3_x: real) (vec3_y: real) (vec3_z: real)

datatype vec4 = vec4 (vec4_x: real) (vec4_y: real) (vec4_z: real) (vec4_w: real)

text \<open>
  The glm functions used by \<^verbatim>\<open>SceneManager::SetTransformations\<close>. The library is not
  part of the repository, and its 4x4 matrix type is the type parameter \<open>'m\<close>: every
  statement below holds for whatever these functions compute.
\<close>

record 'm glm =
  glm_scale :: "vec3 \<Rightarrow> 'm"
  glm_rotate :: "real \<Rightarrow> vec3 \<Rightarrow> 'm"
  glm_translate :: "vec3 \<Rightarrow> 'm"
  glm_radians :: "real \<Rightarrow> real"
  glm_times :: "'m \<Rightarrow> 'm \<Rightarrow> 'm"

text \<open>
  What the C++ leaves undefined is an error value of the model: a member call through
  a null pointer, and an access to \<^verbatim>\<open>m_textureIDs\<close> outside its 16 elements.
\<close>

datatype error = NullPointerDereference | ArrayIndexOutOfBounds

section \<open>The collaborators: shader manager, mesh primitives, OpenGL, image decoder\<close>

text \<open>
  Modelled from the spec: the class \<^verbatim>\<open>ShaderManager\<close> is not among the sources. It
  is the specification's shader-uniform interface: setters for named uniforms, which
  return nothing. The model keeps the calls made on it, oldest first, each with the
  name and the value passed. \<^verbatim>\<open>setIntValue\<close> called with \<^verbatim>\<open>false\<close> /
  \<^verbatim>\<open>true\<close> receives 0 / 1.
\<close>

datatype 'm uniform =
    setMat4Value string 'm
  | setIntValue string int
  | setVec4Value string vec4
  | setSampler2DValue string int
  | setVec2Value string vec2
  | setVec3Value string vec3
  | setFloatValue string real

record 'm ShaderManager =
  calls :: "'m uniform list"

definition submit :: "'m uniform \<Rightarrow> 'm ShaderManager \<Rightarrow> 'm ShaderManager" where
  "submit u sh = sh\<lparr>calls := calls sh @ [u]\<rparr>"

text \<open>
  Modelled from the spec: the class \<^verbatim>\<open>ShapeMeshes\<close> is not among the sources. It is
  the specification's mesh-primitive collaborator, of which the code under study calls
  the \<^verbatim>\<open>Draw...Mesh\<close> functions. The model keeps which of them were called, oldest
  first.
\<close>

datatype mesh =
    ConeMesh | CylinderMesh | PlaneMesh | BoxMesh | SphereMesh
  | HalfSphereMesh | TorusMesh | HalfTorusMesh

record ShapeMeshes =
  drawn :: "mesh list"

text \<open>
  The OpenGL context: the calls made, oldest first, and a supply of texture names
  (\<^verbatim>\<open>glGenTextures\<close> hands out a name not in use; the model hands out
  \<open>gl_next\<close> and moves on to the next number).
\<close>

datatype gl_format = GL_RGB8 | GL_RGBA8

datatype gl_call =
    glGenTextures int
  | glBindTexture int
  | glTexParameteri string string
  | glTexImage2D gl_format int int
  | glGenerateMipmap

record gl_context =
  gl_calls :: "gl_call list"
  gl_next :: int

definition gl :: "gl_call \<Rightarrow> gl_context \<Rightarrow> gl_context" where
  "gl c g = g\<lparr>gl_calls := gl_calls g @ [c]\<rparr>"

definition gen_texture :: "gl_context \<Rightarrow> int \<times> gl_context" where
  "gen_texture g =
     (gl_next g, g\<lparr>gl_calls := gl_calls g @ [glGenTextures (gl_next g)], gl_next := gl_next g + 1\<rparr>)"

text \<open>
  What \<^verbatim>\<open>stbi_load\<close> returns: a null pointer (\<open>None\<close>) or an image, of which the
  code reads the width, the height and the number of colour channels.
\<close>

record image =
  width :: int
  height :: int
  colorChannels :: int

section \<open>SceneManager\<close>

text \<open>
  Modelled from the spec: \<^verbatim>\<open>SceneManager.h\<close>, which declares the two structs and
  the members of the class, is not among the sources. The fields are those of the
  specification's MaterialRecord and TextureSlot, under the names by which
  \<^verbatim>\<open>SceneManager.cpp\<close> reads and writes them; the OpenGL texture name \<^verbatim>\<open>ID\<close> is an
  integer.
\<close>

record OBJECT_MATERIAL =
  ambientColor :: vec3
  ambientStrength :: real
  diffuseColor :: vec3
  specularColor :: vec3
  shininess :: real
  tag :: string

record TEXTURE_INFO =
  ID :: int
  tag :: string

text \<open>
  Modelled from the spec: the members of \<^verbatim>\<open>SceneManager\<close> (declared in the same
  header), as \<^verbatim>\<open>SceneManager.cpp\<close> uses them. \<^verbatim>\<open>m_textureIDs\<close> is the fixed table
  of 16 texture entries (the constructor initialises the indices 0 to 15),
  \<^verbatim>\<open>m_loadedTextures\<close> the number of entries in use, \<^verbatim>\<open>m_objectMaterials\<close> a
  \<^verbatim>\<open>std::vector\<close> holding material records by value; the two pointers are
  \<open>None\<close> when null.
\<close>

record 'm SceneManager =
  m_pShaderManager :: "'m ShaderManager option"
  m_basicMeshes :: "ShapeMeshes option"
  m_textureIDs :: "TEXTURE_INFO list"
  m_loadedTextures :: nat
  m_objectMaterials :: "OBJECT_MATERIAL list"

subsection \<open>Construction\<close>

text \<open>
  \<^verbatim>\<open>SceneManager::SceneManager\<close>: the shader manager is the pointer passed in, the mesh
  collaborator is newly allocated, each of the 16 texture entries gets the tag
  \<^verbatim>\<open>"/0"\<close> and the ID -1, and no texture is loaded.
\<close>

definition SceneManager_ctor :: "'m ShaderManager option \<Rightarrow> 'm SceneManager" where
  "SceneManager_ctor pShaderManager =
     \<lparr> m_pShaderManager = pShaderManager,
       m_basicMeshes = Some \<lparr> drawn = [] \<rparr>,
       m_textureIDs = replicate 16 \<lparr> ID = - 1, tag = ''/0'' \<rparr>,
       m_loadedTextures = 0,
       m_objectMaterials = [] \<rparr>"

subsection \<open>Textures\<close>

text \<open>
  \<^verbatim>\<open>SceneManager::CreateGLTexture\<close>. The decoder \<open>stbi_load\<close> (file name to image, or
  null) is a parameter. The result is the boolean returned together with the
  scene manager and the OpenGL context as the call leaves them. The store into
  \<^verbatim>\<open>m_textureIDs[m_loadedTextures]\<close> is not guarded by the code; outside the array it
  is the error \<open>ArrayIndexOutOfBounds\<close>. Console output, the flip setting of the
  decoder and the release of the decoded pixels are not modelled.
\<close>

definition register_texture ::
  "int \<Rightarrow> string \<Rightarrow> 'm SceneManager \<Rightarrow> error + 'm SceneManager" where
  "register_texture textureID tg sm =
     (if m_loadedTextures sm < length (m_textureIDs sm)
      then Inr (sm\<lparr> m_textureIDs :=
                       (m_textureIDs sm)[m_loadedTextures sm :=
                          (m_textureIDs sm ! m_loadedTextures sm)\<lparr> ID := textureID, tag := tg \<rparr>],
                    m_loadedTextures := m_loadedTextures sm + 1 \<rparr>)
      else Inl ArrayIndexOutOfBounds)"

definition CreateGLTexture ::
  "(string \<Rightarrow> image option) \<Rightarrow> string \<Rightarrow> string \<Rightarrow> 'm SceneManager \<Rightarrow> gl_context
     \<Rightarrow> error + (bool \<times> 'm SceneManager \<times> gl_context)" where
  "CreateGLTexture stbi_load filename tg sm g =
     (case stbi_load filename of
        Some img \<Rightarrow>
          (let (textureID, g1) = gen_texture g;
               g2 = gl (glBindTexture textureID) g1;
               g3 = gl (glTexParameteri ''GL_TEXTURE_WRAP_S'' ''GL_REPEAT'') g2;
               g4 = gl (glTexParameteri ''GL_TEXTURE_WRAP_T'' ''GL_REPEAT'') g3;
               g5 = gl (glTexParameteri ''GL_TEXTURE_MIN_FILTER'' ''GL_LINEAR'') g4;
               g6 = gl (glTexParameteri ''GL_TEXTURE_MAG_FILTER'' ''GL_LINEAR'') g5;
               uploaded =
                 (if colorChannels img = 3
                  then Some (gl (glTexImage2D GL_RGB8 (width img) (height img)) g6)
                  else if colorChannels img = 4
                  then Some (gl (glTexImage2D GL_RGBA8 (width img) (height img)) g6)
                  else None)
           in case uploaded of
                None \<Rightarrow> Inr (False, sm, g6)
              | Some g7 \<Rightarrow>
                  (let g8 = gl glGenerateMipmap g7;
                       g9 = gl (glBindTexture 0) g8
                   in case register_texture textureID tg sm of
                        Inl e \<Rightarrow> Inl e
                      | Inr sm' \<Rightarrow> Inr (True, sm', g9)))
      | None \<Rightarrow> Inr (False, sm, g))"

text \<open>
  \<^verbatim>\<open>SceneManager::DestroyGLTextures\<close>: the loop over the loaded entries calls
  \<^verbatim>\<open>glGenTextures(1, &m_textureIDs[i].ID)\<close>, which stores a newly generated name
  in the entry.
\<close>

function DestroyGLTextures_loop ::
  "nat \<Rightarrow> 'm SceneManager \<Rightarrow> gl_context \<Rightarrow> error + ('m SceneManager \<times> gl_context)" where
  "DestroyGLTextures_loop i sm g =
     (if i < m_loadedTextures sm
      then (if i < length (m_textureIDs sm)
            then (let (name, g') = gen_texture g
                  in DestroyGLTextures_loop (i + 1)
                       (sm\<lparr> m_textureIDs :=
                               (m_textureIDs sm)[i := (m_textureIDs sm ! i)\<lparr> ID := name \<rparr>] \<rparr>) g')
            else Inl ArrayIndexOutOfBounds)
      else Inr (sm, g))"
  by pat_completeness auto
termination
  by (relation "measure (\<lambda>(i, sm, g). m_loadedTextures sm - i)") (auto simp: gen_texture_def)

declare DestroyGLTextures_loop.simps [simp del]

definition DestroyGLTextures ::
  "'m SceneManager \<Rightarrow> gl_context \<Rightarrow> error + ('m SceneManager \<times> gl_context)" where
  "DestroyGLTextures sm g = DestroyGLTextures_loop 0 sm g"

text \<open>
  \<^verbatim>\<open>SceneManager::~SceneManager\<close>: both pointers are cleared (the meshes deleted),
  then the textures are "destroyed".
\<close>

definition SceneManager_dtor ::
  "'m SceneManager \<Rightarrow> gl_context \<Rightarrow> error + ('m SceneManager \<times> gl_context)" where
  "SceneManager_dtor sm g =
     DestroyGLTextures (sm\<lparr> m_pShaderManager := None, m_basicMeshes := None \<rparr>) g"

text \<open>
  \<^verbatim>\<open>SceneManager::FindTextureSlot\<close>: the \<^verbatim>\<open>while\<close> loop with its three locals
  \<^verbatim>\<open>textureSlot\<close>, \<^verbatim>\<open>index\<close> and \<^verbatim>\<open>bFound\<close>.
\<close>

function FindTextureSlot_loop ::
  "'m SceneManager \<Rightarrow> string \<Rightarrow> int \<Rightarrow> nat \<Rightarrow> bool \<Rightarrow> error + int" where
  "FindTextureSlot_loop sm tg textureSlot index bFound =
     (if index < m_loadedTextures sm \<and> bFound = False
      then (if index < length (m_textureIDs sm)
            then (if TEXTURE_INFO.tag (m_textureIDs sm ! index) = tg
                  then FindTextureSlot_loop sm tg (int index) index True
                  else FindTextureSlot_loop sm tg textureSlot (index + 1) bFound)
            else Inl ArrayIndexOutOfBounds)
      else Inr textureSlot)"
  by pat_completeness auto
termination
  by (relation "measure (\<lambda>(sm, tg, textureSlot, index, bFound).
                   2 * (m_loadedTextures sm - index) + (if bFound then 0 else 1))") auto

declare FindTextureSlot_loop.simps [simp del]

definition FindTextureSlot :: "'m SceneManager \<Rightarrow> string \<Rightarrow> error + int" where
  "FindTextureSlot sm tg = FindTextureSlot_loop sm tg (- 1) 0 False"

subsection \<open>Materials\<close>

text \<open>
  \<^verbatim>\<open>SceneManager::FindMaterial\<close>: the reference parameter \<^verbatim>\<open>material\<close> is passed in
  and handed back with the boolean result. On a match the loop copies the five
  numeric fields (not the tag). The value returned after the loop is the constant
  \<^verbatim>\<open>true\<close>.
\<close>

function FindMaterial_loop ::
  "'m SceneManager \<Rightarrow> string \<Rightarrow> OBJECT_MATERIAL \<Rightarrow> nat \<Rightarrow> bool \<Rightarrow> OBJECT_MATERIAL" where
  "FindMaterial_loop sm tg material index bFound =
     (if index < length (m_objectMaterials sm) \<and> bFound = False
      then (if OBJECT_MATERIAL.tag (m_objectMaterials sm ! index) = tg
            then FindMaterial_loop sm tg
                   (material\<lparr> ambientColor := ambientColor (m_objectMaterials sm ! index),
                              ambientStrength := ambientStrength (m_objectMaterials sm ! index),
                              diffuseColor := diffuseColor (m_objectMaterials sm ! index),
                              specularColor := specularColor (m_objectMaterials sm ! index),
                              shininess := shininess (m_objectMaterials sm ! index) \<rparr>)
                   index True
            else FindMaterial_loop sm tg material (index + 1) bFound)
      else material)"
  by pat_completeness auto
termination
  by (relation "measure (\<lambda>(sm, tg, material, index, bFound).
                   2 * (length (m_objectMaterials sm) - index) + (if bFound then 0 else 1))") auto

declare FindMaterial_loop.simps [simp del]

definition FindMaterial ::
  "'m SceneManager \<Rightarrow> string \<Rightarrow> OBJECT_MATERIAL \<Rightarrow> bool \<times> OBJECT_MATERIAL" where
  "FindMaterial sm tg material =
     (if length (m_objectMaterials sm) = 0 then (False, material)
      else (True, FindMaterial_loop sm tg material 0 False))"

definition push_back :: "OBJECT_MATERIAL \<Rightarrow> 'm SceneManager \<Rightarrow> 'm SceneManager" where
  "push_back material sm = sm\<lparr> m_objectMaterials := m_objectMaterials sm @ [material] \<rparr>"

text \<open>
  \<^verbatim>\<open>SceneManager::DefineObjectMaterials\<close>, statement by statement. Every local is
  assigned all of its six fields before it is pushed, so it is written as the record
  it holds at that point. The vector holds its elements by value (\<^verbatim>\<open>FindMaterial\<close>
  reads \<^verbatim>\<open>m_objectMaterials[index].tag\<close>), so \<^verbatim>\<open>push_back\<close> stores a copy of the
  local, and a later assignment to the local changes the local only. The block headed
  \<^verbatim>\<open>OBJECT_MATERIAL screenMaterial;\<close> assigns to the local \<^verbatim>\<open>glassMaterial\<close>, and
  is followed by no \<^verbatim>\<open>push_back\<close>.
\<close>

definition DefineObjectMaterials :: "'m SceneManager \<Rightarrow> 'm SceneManager" where
  "DefineObjectMaterials sm0 =
     (let goldMaterial =
            \<lparr> ambientColor = vec3 0.2 0.2 0.2, ambientStrength = 0.3,
              diffuseColor = vec3 0.2 0.2 0.2, specularColor = vec3 0.5 0.5 0.5,
              shininess = 22.0, tag = ''metal'' \<rparr>;
          sm1 = push_back goldMaterial sm0;
          woodMaterial =
            \<lparr> ambientColor = vec3 0.1 0.1 0.1, ambientStrength = 0.2,
              diffuseColor = vec3 0.23 0.23 0.23, specularColor = vec3 0.1 0.1 0.1,
              shininess = 0.3, tag = ''wood'' \<rparr>;
          sm2 = push_back woodMaterial sm1;
          glassMaterial =
            \<lparr> ambientColor = vec3 0.4 0.4 0.4, ambientStrength = 0.3,
              diffuseColor = vec3 0.3 0.3 0.3, specularColor = vec3 0.6 0.6 0.6,
              shininess = 85.0, tag = ''glass'' \<rparr>;
          sm3 = push_back glassMaterial sm2;
          softMaterial =
            \<lparr> ambientColor = vec3 0.2 0.2 0.2, ambientStrength = 0.4,
              diffuseColor = vec3 0.1 0.1 0.1, specularColor = vec3 0.1 0.1 0.1,
              shininess = 0.05, tag = ''soft'' \<rparr>;
          sm4 = push_back softMaterial sm3;
          wallMaterial =
            \<lparr> ambientColor = vec3 0.2 0.2 0.2, ambientStrength = 0.3,
              diffuseColor = vec3 0.5 0.5 0.5, specularColor = vec3 0.3 0.3 0.3,
              shininess = 0.5, tag = ''wall'' \<rparr>;
          sm5 = push_back wallMaterial sm4;
          matteMaterial =
            \<lparr> ambientColor = vec3 0.2 0.2 0.2, ambientStrength = 0.2,
              diffuseColor = vec3 0.1 0.1 0.1, specularColor = vec3 0.0 0.0 0.0,
              shininess = 0.0, tag = ''matte'' \<rparr>;
          sm6 = push_back matteMaterial sm5;
          glassMaterial =
            glassMaterial\<lparr> ambientColor := vec3 0.298 0.694 0.929, ambientStrength := 0.2,
                           diffuseColor := vec3 0.3 0.3 0.3, specularColor := vec3 0.6 0.6 0.6,
                           shininess := 10.0, OBJECT_MATERIAL.tag := ''screen'' \<rparr>;
          hedgeMaterial =
            \<lparr> ambientColor = vec3 0.1 0.1 0.1, ambientStrength = 0.1,
              diffuseColor = vec3 0.3 0.2 0.3, specularColor = vec3 0.4 0.2 0.2,
              shininess = 0.5, tag = ''hedge'' \<rparr>;
          sm7 = push_back hedgeMaterial sm6
      in sm7)"

subsection \<open>Forwarding to the shader\<close>

text \<open>
  \<^verbatim>\<open>SceneManager::SetTransformations\<close>. The C++ product
  \<^verbatim>\<open>translation * rotationX * rotationY * rotationZ * scale\<close> associates to the left.
\<close>

definition SetTransformations ::
  "'m glm \<Rightarrow> vec3 \<Rightarrow> real \<Rightarrow> real \<Rightarrow> real \<Rightarrow> vec3 \<Rightarrow> 'm SceneManager \<Rightarrow> 'm SceneManager" where
  "SetTransformations G scaleXYZ XrotationDegrees YrotationDegrees ZrotationDegrees positionXYZ sm =
     (let scale = glm_scale G scaleXYZ;
          rotationX = glm_rotate G (glm_radians G XrotationDegrees) (vec3 1 0 0);
          rotationY = glm_rotate G (glm_radians G YrotationDegrees) (vec3 0 1 0);
          rotationZ = glm_rotate G (glm_radians G ZrotationDegrees) (vec3 0 0 1);
          translation = glm_translate G positionXYZ;
          modelView =
            glm_times G (glm_times G (glm_times G (glm_times G translation rotationX) rotationY)
              rotationZ) scale
      in case m_pShaderManager sm of
           None \<Rightarrow> sm
         | Some sh \<Rightarrow> sm\<lparr> m_pShaderManager := Some (submit (setMat4Value ''model'' modelView) sh) \<rparr>)"

text \<open>\<^verbatim>\<open>SceneManager::SetShaderColor\<close>.\<close>

definition SetShaderColor ::
  "real \<Rightarrow> real \<Rightarrow> real \<Rightarrow> real \<Rightarrow> 'm SceneManager \<Rightarrow> 'm SceneManager" where
  "SetShaderColor redColorValue greenColorValue blueColorValue alphaValue sm =
     (let currentColor = vec4 redColorValue greenColorValue blueColorValue alphaValue
      in case m_pShaderManager sm of
           None \<Rightarrow> sm
         | Some sh \<Rightarrow>
             sm\<lparr> m_pShaderManager :=
                   Some (submit (setVec4Value ''objectColor'' currentColor)
                          (submit (setIntValue ''bUseTexture'' 0) sh)) \<rparr>)"

text \<open>\<^verbatim>\<open>SceneManager::SetShaderTexture\<close>.\<close>

definition SetShaderTexture :: "string \<Rightarrow> 'm SceneManager \<Rightarrow> error + 'm SceneManager" where
  "SetShaderTexture textureTag sm =
     (case m_pShaderManager sm of
        None \<Rightarrow> Inr sm
      | Some sh \<Rightarrow>
          (let sh1 = submit (setIntValue ''bUseTexture'' 1) sh
           in case FindTextureSlot sm textureTag of
                Inl e \<Rightarrow> Inl e
              | Inr textureID \<Rightarrow>
                  Inr (sm\<lparr> m_pShaderManager :=
                             Some (submit (setSampler2DValue ''objectTexture'' textureID) sh1) \<rparr>)))"

text \<open>\<^verbatim>\<open>SceneManager::SetTextureUVScale\<close>.\<close>

definition SetTextureUVScale :: "real \<Rightarrow> real \<Rightarrow> 'm SceneManager \<Rightarrow> 'm SceneManager" where
  "SetTextureUVScale u v sm =
     (case m_pShaderManager sm of
        None \<Rightarrow> sm
      | Some sh \<Rightarrow> sm\<lparr> m_pShaderManager := Some (submit (setVec2Value ''UVscale'' (vec2 u v)) sh) \<rparr>)"

text \<open>
  \<^verbatim>\<open>SceneManager::SetShaderMaterial\<close>. The local \<^verbatim>\<open>OBJECT_MATERIAL material\<close> is
  declared without an initialiser; what it holds then is the parameter \<open>U\<close>. The
  five calls go through \<^verbatim>\<open>m_pShaderManager\<close> without the null test of the other
  forwarding functions.
\<close>

definition material_uniforms :: "OBJECT_MATERIAL \<Rightarrow> 'm uniform list" where
  "material_uniforms material =
     [ setVec3Value ''material.ambientColor'' (ambientColor material),
       setFloatValue ''material.ambientStrength'' (ambientStrength material),
       setVec3Value ''material.diffuseColor'' (diffuseColor material),
       setVec3Value ''material.specularColor'' (specularColor material),
       setFloatValue ''material.shininess'' (shininess material) ]"

definition SetShaderMaterial ::
  "OBJECT_MATERIAL \<Rightarrow> string \<Rightarrow> 'm SceneManager \<Rightarrow> error + 'm SceneManager" where
  "SetShaderMaterial U materialTag sm =
     (if length (m_objectMaterials sm) > 0
      then (let (bReturn, material) = FindMaterial sm materialTag U
            in if bReturn = True
               then (case m_pShaderManager sm of
                       None \<Rightarrow> Inl NullPointerDereference
                     | Some sh \<Rightarrow>
                         Inr (sm\<lparr> m_pShaderManager :=
                                    Some (sh\<lparr> calls := calls sh @ material_uniforms material \<rparr>) \<rparr>))
               else Inr sm)
      else Inr sm)"

section \<open>The draw-call builder: class object\<close>

text \<open>
  The members of \<^verbatim>\<open>object\<close>. \<^verbatim>\<open>scenePtr\<close> is the scene manager the object draws
  into; the model passes that scene manager to \<open>render\<close> and gets it back. \<^verbatim>\<open>shape\<close> is
  a \<^verbatim>\<open>std::function<void()>\<close>; every closure the repository stores there captures the
  scene manager and calls one \<^verbatim>\<open>Draw...Mesh\<close> of its mesh collaborator, so a closure
  is a function from the scene manager to the scene manager it leaves (or an error).
\<close>

record 'm object =
  uvScale :: vec2
  rotations :: vec3
  scale :: vec3
  position :: vec3
  RGBA :: vec4
  shape :: "'m SceneManager \<Rightarrow> error + 'm SceneManager"
  texture :: string
  shaderMaterial :: string

text \<open>The closure \<^verbatim>\<open>[this]() { m_basicMeshes->Draw<k>Mesh(); }\<close>.\<close>

definition draw :: "mesh \<Rightarrow> 'm SceneManager \<Rightarrow> error + 'm SceneManager" where
  "draw k sm =
     (case m_basicMeshes sm of
        None \<Rightarrow> Inl NullPointerDereference
      | Some meshes \<Rightarrow> Inr (sm\<lparr> m_basicMeshes := Some (meshes\<lparr> drawn := drawn meshes @ [k] \<rparr>) \<rparr>))"

text \<open>The default member values of \<^verbatim>\<open>object.h\<close>.\<close>

definition object_ctor :: "'m object" where
  "object_ctor =
     \<lparr> uvScale = vec2 0.0 0.0, rotations = vec3 0.0 0.0 0.0, scale = vec3 1.0 1.0 1.0,
       position = vec3 0.0 0.0 0.0, RGBA = vec4 0.0 0.0 0.0 1, shape = draw BoxMesh,
       texture = '''', shaderMaterial = '''' \<rparr>"

text \<open>\<^verbatim>\<open>object::render\<close>.\<close>

definition render ::
  "'m glm \<Rightarrow> OBJECT_MATERIAL \<Rightarrow> 'm object \<Rightarrow> 'm SceneManager \<Rightarrow> error + 'm SceneManager" where
  "render G U ob sm =
     (let sm1 = SetTransformations G (scale ob) (vec3_x (rotations ob)) (vec3_y (rotations ob))
                  (vec3_z (rotations ob)) (position ob) sm;
          sm2 = SetShaderColor (vec4_x (RGBA ob)) (vec4_y (RGBA ob)) (vec4_z (RGBA ob))
                  (vec4_w (RGBA ob)) sm1
      in case (if texture ob \<noteq> ''''
               then (case SetShaderTexture (texture ob) sm2 of
                       Inl e \<Rightarrow> Inl e
                     | Inr sm3 \<Rightarrow>
                         Inr (SetTextureUVScale (vec2_x (uvScale ob)) (vec2_y (uvScale ob)) sm3))
               else Inr sm2) of
           Inl e \<Rightarrow> Inl e
         | Inr sm4 \<Rightarrow>
             (case (if shaderMaterial ob \<noteq> ''''
                    then SetShaderMaterial U (shaderMaterial ob) sm4
                    else Inr sm4) of
                Inl e \<Rightarrow> Inl e
              | Inr sm5 \<Rightarrow> shape ob sm5))"

text \<open>\<^verbatim>\<open>object::resetAll\<close>.\<close>

definition resetAll :: "'m object \<Rightarrow> 'm object" where
  "resetAll ob =
     ob\<lparr> uvScale := vec2 0.0 0.0, rotations := vec3 0.0 0.0 0.0, scale := vec3 1.0 1.0 1.0,
         position := vec3 0.0 0.0 0.0, RGBA := vec4 0.0 0.0 0.0 1, texture := '''',
         shaderMaterial := '''' \<rparr>"

text \<open>The setters.\<close>

definition set_uvScale :: "vec2 \<Rightarrow> 'm object \<Rightarrow> 'm object" where
  "set_uvScale given_uvScale ob = ob\<lparr> uvScale := given_uvScale \<rparr>"

definition setRotations :: "vec3 \<Rightarrow> 'm object \<Rightarrow> 'm object" where
  "setRotations givenRotations ob = ob\<lparr> rotations := givenRotations \<rparr>"

definition setScale :: "vec3 \<Rightarrow> 'm object \<Rightarrow> 'm object" where
  "setScale givenScale ob = ob\<lparr> scale := givenScale \<rparr>"

definition setPosition :: "vec3 \<Rightarrow> 'm object \<Rightarrow> 'm object" where
  "setPosition givenPosition ob = ob\<lparr> position := givenPosition \<rparr>"

definition setRGBA :: "vec4 \<Rightarrow> 'm object \<Rightarrow> 'm object" where
  "setRGBA givenRGBA ob = ob\<lparr> RGBA := givenRGBA \<rparr>"

definition setShape ::
  "('m SceneManager \<Rightarrow> error + 'm SceneManager) \<Rightarrow> 'm object \<Rightarrow> 'm object" where
  "setShape givenShape ob = ob\<lparr> shape := givenShape \<rparr>"

definition setTexture :: "string \<Rightarrow> 'm object \<Rightarrow> 'm object" where
  "setTexture givenTexture ob = ob\<lparr> texture := givenTexture \<rparr>"

definition setObjectShaderMaterial :: "string \<Rightarrow> 'm object \<Rightarrow> 'm object" where
  "setObjectShaderMaterial givenMaterial ob = ob\<lparr> shaderMaterial := givenMaterial \<rparr>"

text \<open>
  A run of the builder: the public member functions of \<^verbatim>\<open>object\<close> called one after the
  other on the same object, drawing into the same scene manager. An error of
  \<open>render\<close> ends the run.
\<close>

datatype 'm builder_call =
    call_set_uvScale vec2
  | call_setRotations vec3
  | call_setScale vec3
  | call_setPosition vec3
  | call_setRGBA vec4
  | call_setShape "'m SceneManager \<Rightarrow> error + 'm SceneManager"
  | call_setTexture string
  | call_setObjectShaderMaterial string
  | call_render
  | call_resetAll

fun step ::
  "'m glm \<Rightarrow> OBJECT_MATERIAL \<Rightarrow> 'm builder_call \<Rightarrow> 'm object \<times> 'm SceneManager
     \<Rightarrow> error + 'm object \<times> 'm SceneManager" where
  "step G U (call_set_uvScale v) (ob, sm) = Inr (set_uvScale v ob, sm)"
| "step G U (call_setRotations v) (ob, sm) = Inr (setRotations v ob, sm)"
| "step G U (call_setScale v) (ob, sm) = Inr (setScale v ob, sm)"
| "step G U (call_setPosition v) (ob, sm) = Inr (setPosition v ob, sm)"
| "step G U (call_setRGBA v) (ob, sm) = Inr (setRGBA v ob, sm)"
| "step G U (call_setShape f) (ob, sm) = Inr (setShape f ob, sm)"
| "step G U (call_setTexture t) (ob, sm) = Inr (setTexture t ob, sm)"
| "step G U (call_setObjectShaderMaterial t) (ob, sm) = Inr (setObjectShaderMaterial t ob, sm)"
| "step G U call_render (ob, sm) =
     (case render G U ob sm of Inl e \<Rightarrow> Inl e | Inr sm' \<Rightarrow> Inr (ob, sm'))"
| "step G U call_resetAll (ob, sm) = Inr (resetAll ob, sm)"

fun run ::
  "'m glm \<Rightarrow> OBJECT_MATERIAL \<Rightarrow> 'm builder_call list \<Rightarrow> 'm object \<times> 'm SceneManager
     \<Rightarrow> error + 'm object \<times> 'm SceneManager" where
  "run G U [] s = Inr s"
| "run G U (c # cs) s = (case step G U c s of Inl e \<Rightarrow> Inl e | Inr s' \<Rightarrow> run G U cs s')"

text \<open>
  The fields of the draw state, which of them a call sets explicitly (a setter its own
  field, \<^verbatim>\<open>resetAll\<close> all but the shape, \<^verbatim>\<open>render\<close> none), and what it means for a
  field to hold the same value in two objects.
\<close>

datatype field =
    F_uvScale | F_rotations | F_scale | F_position | F_RGBA | F_shape | F_texture
  | F_shaderMaterial

fun sets :: "'m builder_call \<Rightarrow> field \<Rightarrow> bool" where
  "sets (call_set_uvScale v) f = (f = F_uvScale)"
| "sets (call_setRotations v) f = (f = F_rotations)"
| "sets (call_setScale v) f = (f = F_scale)"
| "sets (call_setPosition v) f = (f = F_position)"
| "sets (call_setRGBA v) f = (f = F_RGBA)"
| "sets (call_setShape g) f = (f = F_shape)"
| "sets (call_setTexture t) f = (f = F_texture)"
| "sets (call_setObjectShaderMaterial t) f = (f = F_shaderMaterial)"
| "sets call_render f = False"
| "sets call_resetAll f = (f \<noteq> F_shape)"

fun same_field :: "field \<Rightarrow> 'm object \<Rightarrow> 'm object \<Rightarrow> bool" where
  "same_field F_uvScale a b = (uvScale a = uvScale b)"
| "same_field F_rotations a b = (rotations a = rotations b)"
| "same_field F_scale a b = (scale a = scale b)"
| "same_field F_position a b = (position a = position b)"
| "same_field F_RGBA a b = (RGBA a = RGBA b)"
| "same_field F_shape a b = (shape a = shape b)"
| "same_field F_texture a b = (texture a = texture b)"
| "same_field F_shaderMaterial a b = (shaderMaterial a = shaderMaterial b)"

section \<open>Sequences of texture loads\<close>

text \<open>
  The registered part of the texture table: the first \<^verbatim>\<open>m_loadedTextures\<close> entries of
  \<^verbatim>\<open>m_textureIDs\<close>, which are the entries every loop of the class looks at.
\<close>

definition texture_table :: "'m SceneManager \<Rightarrow> TEXTURE_INFO list" where
  "texture_table sm = take (m_loadedTextures sm) (m_textureIDs sm)"

text \<open>
  Calls of \<^verbatim>\<open>CreateGLTexture\<close> one after the other, each with a file name and a tag,
  the boolean results dropped: what \<^verbatim>\<open>LoadSceneTextures\<close> does with its list of
  files.
\<close>

fun load_all ::
  "(string \<Rightarrow> image option) \<Rightarrow> (string \<times> string) list \<Rightarrow> 'm SceneManager \<Rightarrow> gl_context
     \<Rightarrow> error + ('m SceneManager \<times> gl_context)" where
  "load_all stbi_load [] sm g = Inr (sm, g)"
| "load_all stbi_load ((filename, tg) # rest) sm g =
     (case CreateGLTexture stbi_load filename tg sm g of
        Inl e \<Rightarrow> Inl e
      | Inr (b, sm', g') \<Rightarrow> load_all stbi_load rest sm' g')"

text \<open>
  The loads of such a sequence that succeed (the file decodes to an image of 3 or 4
  channels), and the tags they were given, in the order of the calls.
\<close>

definition decodes :: "(string \<Rightarrow> image option) \<Rightarrow> string \<Rightarrow> bool" where
  "decodes stbi_load filename =
     (case stbi_load filename of
        None \<Rightarrow> False
      | Some img \<Rightarrow> colorChannels img = 3 \<or> colorChannels img = 4)"

definition loaded_tags :: "(string \<Rightarrow> image option) \<Rightarrow> (string \<times> string) list \<Rightarrow> string list" where
  "loaded_tags stbi_load ls = map snd (filter (\<lambda>(filename, tg). decodes stbi_load filename) ls)"

section \<open>The model matrix of the specification\<close>

text \<open>
  The specification's
  \<open>translation(position) \<cdot> rotationX(rotation.x) \<cdot> rotationY(rotation.y) \<cdot> rotationZ(rotation.z) \<cdot> scale(scale)\<close>,
  the rotations given in degrees, read as a product of five matrices taken from left
  to right.
\<close>

definition model_matrix :: "'m glm \<Rightarrow> vec3 \<Rightarrow> vec3 \<Rightarrow> vec3 \<Rightarrow> 'm" where
  "model_matrix G p r s =
     glm_times G
       (glm_times G
         (glm_times G
           (glm_times G (glm_translate G p)
             (glm_rotate G (glm_radians G (vec3_x r)) (vec3 1 0 0)))
           (glm_rotate G (glm_radians G (vec3_y r)) (vec3 0 1 0)))
         (glm_rotate G (glm_radians G (vec3_z r)) (vec3 0 0 1)))
       (glm_scale G s)"

section \<open>Concrete inputs\<close>

text \<open>
  An interpretation of the glm parameter for the evaluations below: a matrix is kept as
  the expression that builds it, so two matrices are equal only when they were built
  the same way. \<^verbatim>\<open>glm::radians\<close> multiplies by the constant glm uses.
\<close>

datatype mat4 = Scale vec3 | Rotate real vec3 | Translate vec3 | Times mat4 mat4

definition glm_sym :: "mat4 glm" where
  "glm_sym =
     \<lparr> glm_scale = Scale, glm_rotate = Rotate, glm_translate = Translate,
       glm_radians = (\<lambda>degrees. degrees * 0.01745329251994329576923690768489),
       glm_times = Times \<rparr>"

text \<open>A value for the uninitialised local of \<^verbatim>\<open>SetShaderMaterial\<close>.\<close>

definition U0 :: OBJECT_MATERIAL where
  "U0 = \<lparr> ambientColor = vec3 7 7 7, ambientStrength = 7, diffuseColor = vec3 7 7 7,
          specularColor = vec3 7 7 7, shininess = 7, tag = ''?'' \<rparr>"

text \<open>A shader manager on which no call has been made yet.\<close>

definition sh0 :: "mat4 ShaderManager" where
  "sh0 = \<lparr> calls = [] \<rparr>"

text \<open>
  A decoder: one file of 3 channels, one of 4, one of a single channel; any other file
  does not decode.
\<close>

definition stbi0 :: "string \<Rightarrow> image option" where
  "stbi0 filename =
     (if filename = ''Textures/wood.jpg''
      then Some \<lparr> width = 512, height = 512, colorChannels = 3 \<rparr>
      else if filename = ''Textures/clouds.png''
      then Some \<lparr> width = 256, height = 128, colorChannels = 4 \<rparr>
      else if filename = ''Textures/gray.png''
      then Some \<lparr> width = 64, height = 64, colorChannels = 1 \<rparr>
      else None)"

text \<open>An OpenGL context in which nothing has happened; the first texture name is 1.\<close>

definition gl0 :: gl_context where
  "gl0 = \<lparr> gl_calls = [], gl_next = 1 \<rparr>"

text \<open>
  The scene manager after construction with the shader manager \<open>sh0\<close>,
  \<^verbatim>\<open>DefineObjectMaterials()\<close> and one successful
  \<^verbatim>\<open>CreateGLTexture("Textures/wood.jpg", "wood")\<close>.
\<close>

definition wood_scene :: "mat4 SceneManager" where
  "wood_scene =
     (DefineObjectMaterials (SceneManager_ctor (Some sh0)))
       \<lparr> m_textureIDs := (replicate 16 \<lparr> ID = - 1, tag = ''/0'' \<rparr>)[0 := \<lparr> ID = 1, tag = ''wood'' \<rparr>],
         m_loadedTextures := 1 \<rparr>"

text \<open>The OpenGL context after that load: the nine calls of the load, next name 2.\<close>

definition gl_after_wood :: gl_context where
  "gl_after_wood =
     \<lparr> gl_calls =
         [ glGenTextures 1, glBindTexture 1,
           glTexParameteri ''GL_TEXTURE_WRAP_S'' ''GL_REPEAT'',
           glTexParameteri ''GL_TEXTURE_WRAP_T'' ''GL_REPEAT'',
           glTexParameteri ''GL_TEXTURE_MIN_FILTER'' ''GL_LINEAR'',
           glTexParameteri ''GL_TEXTURE_MAG_FILTER'' ''GL_LINEAR'',
           glTexImage2D GL_RGB8 512 512, glGenerateMipmap, glBindTexture 0 ],
       gl_next = 2 \<rparr>"

text \<open>
  A scene manager whose texture table is full: the one constructed with \<open>sh0\<close>
  after sixteen successful loads of the same file under the tag "wood".
\<close>

definition full_scene :: "mat4 SceneManager" where
  "full_scene =
     (SceneManager_ctor (Some sh0))
       \<lparr> m_textureIDs := map (\<lambda>i. \<lparr> ID = i, tag = ''wood'' \<rparr>) [1, 2, 3, 4, 5, 6, 7, 8, 9, 10, 11, 12, 13, 14, 15, 16],
         m_loadedTextures := 16 \<rparr>"

text \<open>
  The draw state of the specification's end-to-end example: position (1,2,3), rotation
  (0,90,0), scale (2,2,2), colour (1,0,0,1), texture tag "wood".
\<close>

definition red_box :: "mat4 object" where
  "red_box =
     setTexture ''wood'' (setRGBA (vec4 1 0 0 1) (setScale (vec3 2 2 2)
       (setRotations (vec3 0 90 0) (setPosition (vec3 1 2 3) object_ctor))))"

section \<open>Properties of the draw-call builder\<close>

lemma same_field_refl: "same_field f a a"
  by (cases f) simp_all

lemma same_field_trans: "same_field f a b \<Longrightarrow> same_field f b c \<Longrightarrow> same_field f a c"
  by (cases f) simp_all

lemma step_keeps_unset_field:
  assumes "step G U c (ob, sm) = Inr (ob', sm')" and "\<not> sets c f"
  shows "same_field f ob ob'"
proof (cases c)
  case call_render
  with assms show ?thesis
    by (auto simp: same_field_refl split: sum.splits)
next
  case call_resetAll
  with assms show ?thesis
    by (cases f) (auto simp: resetAll_def)
qed (use assms in \<open>cases f; auto simp: set_uvScale_def setRotations_def setScale_def
       setPosition_def setRGBA_def setShape_def setTexture_def setObjectShaderMaterial_def\<close>)+

text \<open>
  C5. Whatever the object held before, after \<^verbatim>\<open>resetAll()\<close> the UV scale is (0,0), the
  rotations are (0,0,0), the scale is (1,1,1), the position is (0,0,0), the colour is
  (0,0,0,1), the texture tag and the material tag are the empty string, and the mesh
  selector is the one held before. These are the default member values of
  \<^verbatim>\<open>object.h\<close>: the object is a newly constructed one but for its mesh selector.
\<close>

theorem resetAll_restores_defaults:
  "uvScale (resetAll ob) = vec2 0 0 \<and>
   rotations (resetAll ob) = vec3 0 0 0 \<and>
   scale (resetAll ob) = vec3 1 1 1 \<and>
   position (resetAll ob) = vec3 0 0 0 \<and>
   RGBA (resetAll ob) = vec4 0 0 0 1 \<and>
   texture (resetAll ob) = [] \<and>
   shaderMaterial (resetAll ob) = [] \<and>
   shape (resetAll ob) = shape ob \<and>
   resetAll ob = object_ctor\<lparr> shape := shape ob \<rparr>"
  by (simp add: resetAll_def object_ctor_def)

text \<open>
  C4. In every run of builder calls (setters, \<^verbatim>\<open>render\<close>, \<^verbatim>\<open>resetAll\<close>) that comes
  to its end, a field that no call of the run sets explicitly holds at the end the
  value it held at the start: a setter changes its own field only, \<^verbatim>\<open>resetAll\<close>
  leaves the mesh selector, and \<^verbatim>\<open>render\<close> changes no field.
\<close>

theorem unset_fields_carry_over:
  assumes "run G U cs (ob, sm) = Inr (ob', sm')"
    and "\<forall>c \<in> set cs. \<not> sets c f"
  shows "same_field f ob ob'"
  using assms
proof (induction cs arbitrary: ob sm)
  case Nil
  then show ?case by (simp add: same_field_refl)
next
  case (Cons c cs)
  from Cons.prems(1) obtain ob1 sm1 where
    first: "step G U c (ob, sm) = Inr (ob1, sm1)" and
    rest: "run G U cs (ob1, sm1) = Inr (ob', sm')"
    by (auto split: sum.splits)
  from first Cons.prems(2) have "same_field f ob ob1"
    by (auto intro: step_keeps_unset_field)
  moreover from rest Cons.prems(2) have "same_field f ob1 ob'"
    by (auto intro: Cons.IH)
  ultimately show ?case
    by (rule same_field_trans)
qed

lemmas model_defs =
  render_def SetTransformations_def SetShaderColor_def SetShaderTexture_def
  SetTextureUVScale_def SetShaderMaterial_def FindMaterial_def FindTextureSlot_def
  material_uniforms_def submit_def draw_def object_ctor_def SceneManager_ctor_def
  set_uvScale_def setRotations_def setScale_def setPosition_def setRGBA_def setShape_def
  setTexture_def setObjectShaderMaterial_def resetAll_def glm_sym_def U0_def sh0_def
  FindTextureSlot_loop.simps FindMaterial_loop.simps

theorem unset_fields_carry_over_witness:
  "\<exists>ob' sm'.
     run glm_sym U0
       [call_setPosition (vec3 1 2 3), call_setTexture ''wood'', call_render,
        call_setRGBA (vec4 1 0 0 1), call_render]
       (object_ctor, SceneManager_ctor (Some sh0)) = Inr (ob', sm') \<and>
     scale ob' = vec3 1 1 1"
proof -
  let ?cs = "[call_setPosition (vec3 1 2 3), call_setTexture ''wood'', call_render,
              call_setRGBA (vec4 1 0 0 1), call_render] :: mat4 builder_call list"
  let ?s = "(object_ctor, SceneManager_ctor (Some sh0)) :: mat4 object \<times> mat4 SceneManager"
  have "\<not> isl (run glm_sym U0 ?cs ?s)"
    by (simp add: model_defs)
  then obtain ob' sm' where r: "run glm_sym U0 ?cs ?s = Inr (ob', sm')"
    by (cases "run glm_sym U0 ?cs ?s") auto
  have n: "\<forall>c \<in> set ?cs. \<not> sets c F_scale"
    by simp
  from unset_fields_carry_over [OF r n] have "scale ob' = vec3 1 1 1"
    by (simp add: object_ctor_def)
  with r show ?thesis by blast
qed

section \<open>Lookups in the texture table\<close>

lemma FindTextureSlot_loop_frame:
  "m_textureIDs sm' = m_textureIDs sm \<Longrightarrow> m_loadedTextures sm' = m_loadedTextures sm \<Longrightarrow>
   FindTextureSlot_loop sm' tg slot i b = FindTextureSlot_loop sm tg slot i b"
proof (induction sm tg slot i b rule: FindTextureSlot_loop.induct)
  case (1 sm tg textureSlot index bFound)
  show ?case
    using 1 by (subst FindTextureSlot_loop.simps, subst (2) FindTextureSlot_loop.simps) simp
qed

lemma FindMaterial_loop_frame:
  "m_objectMaterials sm' = m_objectMaterials sm \<Longrightarrow>
   FindMaterial_loop sm' tg material i b = FindMaterial_loop sm tg material i b"
proof (induction sm tg material i b rule: FindMaterial_loop.induct)
  case (1 sm tg material index bFound)
  show ?case
    using 1 by (subst FindMaterial_loop.simps, subst (2) FindMaterial_loop.simps) simp
qed

lemma FindTextureSlot_loop_shader:
  "FindTextureSlot_loop (sm\<lparr> m_pShaderManager := x \<rparr>) tg slot i b =
   FindTextureSlot_loop sm tg slot i b"
  by (rule FindTextureSlot_loop_frame) simp_all

lemma FindMaterial_loop_shader:
  "FindMaterial_loop (sm\<lparr> m_pShaderManager := x \<rparr>) tg material i b =
   FindMaterial_loop sm tg material i b"
  by (rule FindMaterial_loop_frame) simp

lemma FindTextureSlot_loop_found:
  "FindTextureSlot_loop sm tg slot i True = Inr slot"
  by (subst FindTextureSlot_loop.simps) simp

lemma FindTextureSlot_loop_hit:
  assumes "m_loadedTextures sm \<le> length (m_textureIDs sm)"
    and "k < m_loadedTextures sm"
    and "TEXTURE_INFO.tag (m_textureIDs sm ! k) = tg"
    and "\<forall>j. i \<le> j \<and> j < k \<longrightarrow> TEXTURE_INFO.tag (m_textureIDs sm ! j) \<noteq> tg"
    and "i \<le> k"
  shows "FindTextureSlot_loop sm tg slot i False = Inr (int k)"
  using assms(4,5)
proof (induction "k - i" arbitrary: i)
  case 0
  then have "i = k" by simp
  with assms(1-3) show ?case
    by (subst FindTextureSlot_loop.simps) (simp add: FindTextureSlot_loop_found)
next
  case (Suc d)
  then have lt: "i < k" and d: "d = k - (i + 1)" by simp_all
  from Suc.prems lt have miss: "TEXTURE_INFO.tag (m_textureIDs sm ! i) \<noteq> tg" by simp
  have "FindTextureSlot_loop sm tg slot (i + 1) False = Inr (int k)"
    using Suc.prems lt by (intro Suc.hyps(1) d) auto
  with assms(1,2) lt miss show ?case
    by (subst FindTextureSlot_loop.simps) simp
qed

lemma FindTextureSlot_loop_miss:
  assumes "m_loadedTextures sm \<le> length (m_textureIDs sm)"
    and "\<forall>j. i \<le> j \<and> j < m_loadedTextures sm \<longrightarrow> TEXTURE_INFO.tag (m_textureIDs sm ! j) \<noteq> tg"
  shows "FindTextureSlot_loop sm tg slot i False = Inr slot"
  using assms(2)
proof (induction "m_loadedTextures sm - i" arbitrary: i)
  case 0
  then show ?case
    by (subst FindTextureSlot_loop.simps) simp
next
  case (Suc d)
  then have lt: "i < m_loadedTextures sm" and d: "d = m_loadedTextures sm - (i + 1)" by simp_all
  from Suc.prems lt have miss: "TEXTURE_INFO.tag (m_textureIDs sm ! i) \<noteq> tg" by simp
  have "FindTextureSlot_loop sm tg slot (i + 1) False = Inr slot"
    using Suc.prems by (intro Suc.hyps(1) d) auto
  with assms(1) lt miss show ?case
    by (subst FindTextureSlot_loop.simps) simp
qed

lemma texture_table_nth:
  "m_loadedTextures sm \<le> length (m_textureIDs sm) \<Longrightarrow> j < m_loadedTextures sm \<Longrightarrow>
   texture_table sm ! j = m_textureIDs sm ! j"
  by (simp add: texture_table_def)

lemma texture_table_length:
  "m_loadedTextures sm \<le> length (m_textureIDs sm) \<Longrightarrow>
   length (texture_table sm) = m_loadedTextures sm"
  by (simp add: texture_table_def)

lemma FindTextureSlot_hit:
  assumes "m_loadedTextures sm \<le> length (m_textureIDs sm)"
    and "k < length (texture_table sm)"
    and "TEXTURE_INFO.tag (texture_table sm ! k) = tg"
    and "\<forall>j < k. TEXTURE_INFO.tag (texture_table sm ! j) \<noteq> tg"
  shows "FindTextureSlot sm tg = Inr (int k)"
proof -
  from assms(1,2) have k: "k < m_loadedTextures sm"
    by (simp add: texture_table_length)
  with assms(1,3) have "TEXTURE_INFO.tag (m_textureIDs sm ! k) = tg"
    by (simp add: texture_table_nth)
  moreover from assms(1,4) k
  have "\<forall>j. 0 \<le> j \<and> j < k \<longrightarrow> TEXTURE_INFO.tag (m_textureIDs sm ! j) \<noteq> tg"
    by (simp add: texture_table_nth)
  ultimately show ?thesis
    unfolding FindTextureSlot_def using assms(1) k
    by (intro FindTextureSlot_loop_hit) auto
qed

lemma FindTextureSlot_miss:
  assumes "m_loadedTextures sm \<le> length (m_textureIDs sm)"
    and "tg \<notin> TEXTURE_INFO.tag ` set (texture_table sm)"
  shows "FindTextureSlot sm tg = Inr (- 1)"
proof -
  have "\<forall>j. 0 \<le> j \<and> j < m_loadedTextures sm \<longrightarrow> TEXTURE_INFO.tag (m_textureIDs sm ! j) \<noteq> tg"
  proof (intro allI impI)
    fix j assume "0 \<le> j \<and> j < m_loadedTextures sm"
    then have j: "j < m_loadedTextures sm" by simp
    with assms(1) have "texture_table sm ! j \<in> set (texture_table sm)"
      by (intro nth_mem) (simp add: texture_table_length)
    moreover from assms(1) j have "texture_table sm ! j = m_textureIDs sm ! j"
      by (rule texture_table_nth)
    ultimately have "m_textureIDs sm ! j \<in> set (texture_table sm)"
      by simp
    with assms(2) show "TEXTURE_INFO.tag (m_textureIDs sm ! j) \<noteq> tg"
      by force
  qed
  with assms(1) show ?thesis
    unfolding FindTextureSlot_def by (intro FindTextureSlot_loop_miss) auto
qed

lemma first_occurrence:
  assumes "x \<in> set xs"
  obtains k where "k < length xs" and "xs ! k = x" and "\<forall>j < k. xs ! j \<noteq> x"
proof -
  define k where "k = (LEAST k. k < length xs \<and> xs ! k = x)"
  from assms obtain k0 where "k0 < length xs \<and> xs ! k0 = x"
    by (auto simp: in_set_conv_nth)
  then have here: "k < length xs \<and> xs ! k = x"
    unfolding k_def by (rule LeastI)
  moreover have "\<forall>j < k. xs ! j \<noteq> x"
  proof (intro allI impI notI)
    fix j assume "j < k" and "xs ! j = x"
    with here have "j < length xs \<and> xs ! j = x" by simp
    then have "k \<le> j" unfolding k_def by (rule Least_le)
    with \<open>j < k\<close> show False by simp
  qed
  ultimately show thesis using that by blast
qed

text \<open>
  Within the bounds of the array the lookup returns, and what it returns is the
  sentinel -1 exactly when no registered entry carries the tag, and otherwise the
  index of the first registered entry that does.
\<close>

lemma FindTextureSlot_returns:
  assumes "m_loadedTextures sm \<le> length (m_textureIDs sm)"
  shows "\<exists>slot. FindTextureSlot sm tg = Inr slot \<and>
           (slot = - 1 \<and> tg \<notin> TEXTURE_INFO.tag ` set (texture_table sm) \<or>
            0 \<le> slot \<and> nat slot < length (texture_table sm) \<and>
            TEXTURE_INFO.tag (texture_table sm ! nat slot) = tg)"
proof (cases "tg \<in> TEXTURE_INFO.tag ` set (texture_table sm)")
  case False
  with assms show ?thesis by (auto dest: FindTextureSlot_miss)
next
  case True
  then have "tg \<in> set (map TEXTURE_INFO.tag (texture_table sm))" by simp
  then obtain k where k: "k < length (map TEXTURE_INFO.tag (texture_table sm))"
    "map TEXTURE_INFO.tag (texture_table sm) ! k = tg"
    "\<forall>j < k. map TEXTURE_INFO.tag (texture_table sm) ! j \<noteq> tg"
    by (rule first_occurrence)
  then have "FindTextureSlot sm tg = Inr (int k)"
    using assms by (intro FindTextureSlot_hit) auto
  with k show ?thesis by auto
qed

section \<open>What render submits\<close>

text \<open>
  With a shader manager attached, \<open>render\<close> in closed form: the error of the texture
  lookup if there is one; otherwise the mesh selector applied to the scene manager
  whose shader manager has received, in this order, the model matrix, the texture
  switch set to 0 and the colour; for a non-empty texture tag the texture switch set
  to 1, the slot and the UV scale; for a non-empty material tag and a non-empty
  material table the five material uniforms.
\<close>

lemma render_with_shader:
  assumes "m_pShaderManager sm = Some sh"
  shows "render G U ob sm =
    (case (if texture ob \<noteq> [] then FindTextureSlot sm (texture ob) else Inr 0) of
       Inl e \<Rightarrow> Inl e
     | Inr slot \<Rightarrow>
         shape ob (sm\<lparr> m_pShaderManager := Some (sh\<lparr> calls := calls sh @
           [setMat4Value ''model'' (model_matrix G (position ob) (rotations ob) (scale ob)),
            setIntValue ''bUseTexture'' 0,
            setVec4Value ''objectColor'' (RGBA ob)] @
           (if texture ob \<noteq> []
            then [setIntValue ''bUseTexture'' 1, setSampler2DValue ''objectTexture'' slot,
                  setVec2Value ''UVscale'' (uvScale ob)]
            else []) @
           (if shaderMaterial ob \<noteq> [] \<and> m_objectMaterials sm \<noteq> []
            then material_uniforms (snd (FindMaterial sm (shaderMaterial ob) U))
            else []) \<rparr>) \<rparr>))"
proof -
  let ?sm1 = "SetTransformations G (scale ob) (vec3_x (rotations ob)) (vec3_y (rotations ob))
                (vec3_z (rotations ob)) (position ob) sm"
  let ?sm2 = "SetShaderColor (vec4_x (RGBA ob)) (vec4_y (RGBA ob)) (vec4_z (RGBA ob))
                (vec4_w (RGBA ob)) ?sm1"
  let ?c2 = "calls sh @
     [setMat4Value ''model'' (model_matrix G (position ob) (rotations ob) (scale ob)),
      setIntValue ''bUseTexture'' 0, setVec4Value ''objectColor'' (RGBA ob)]"
  have sm2: "?sm2 = sm\<lparr> m_pShaderManager := Some (sh\<lparr> calls := ?c2 \<rparr>) \<rparr>"
    using assms
    by (simp add: SetTransformations_def SetShaderColor_def submit_def model_matrix_def Let_def)
  show ?thesis
  proof (cases "texture ob = []")
    case True
    show ?thesis
      unfolding render_def Let_def sm2 using True
      by (simp add: SetShaderMaterial_def FindMaterial_def FindMaterial_loop_shader
          split: sum.splits)
  next
    case False
    show ?thesis
    proof (cases "FindTextureSlot sm (texture ob)")
      case (Inl e)
      then show ?thesis
        unfolding render_def Let_def sm2 using False
        by (simp add: SetShaderTexture_def FindTextureSlot_def FindTextureSlot_loop_shader)
    next
      case (Inr slot)
      then show ?thesis
        unfolding render_def Let_def sm2 using False
        by (simp add: SetShaderTexture_def SetTextureUVScale_def FindTextureSlot_def
            FindTextureSlot_loop_shader SetShaderMaterial_def FindMaterial_def
            FindMaterial_loop_shader submit_def split: sum.splits)
    qed
  qed
qed

text \<open>
  Without a shader manager the four guarded functions do nothing, and
  \<^verbatim>\<open>SetShaderMaterial\<close> goes through the null pointer as soon as the material tag and
  the material table are both non-empty.
\<close>

lemma render_without_shader:
  assumes "m_pShaderManager sm = None"
  shows "render G U ob sm =
    (if shaderMaterial ob \<noteq> [] \<and> m_objectMaterials sm \<noteq> []
     then Inl NullPointerDereference else shape ob sm)"
  using assms
  by (simp add: render_def SetTransformations_def SetShaderColor_def SetShaderTexture_def
      SetTextureUVScale_def SetShaderMaterial_def FindMaterial_def Let_def)

section \<open>The concrete scene and draw state\<close>

lemmas texture_defs =
  CreateGLTexture_def register_texture_def gen_texture_def gl_def stbi0_def gl0_def
  SceneManager_ctor_def DefineObjectMaterials_def push_back_def sh0_def

lemma wood_scene_loaded:
  "load_all stbi0 [(''Textures/wood.jpg'', ''wood'')]
     (DefineObjectMaterials (SceneManager_ctor (Some sh0))) gl0 = Inr (wood_scene, gl_after_wood)"
  by (simp add: texture_defs wood_scene_def gl_after_wood_def Let_def)

lemma wood_scene_shader: "m_pShaderManager wood_scene = Some sh0"
  by (simp add: wood_scene_def DefineObjectMaterials_def push_back_def SceneManager_ctor_def Let_def)

lemma wood_scene_textures:
  "m_loadedTextures wood_scene = 1"
  "m_textureIDs wood_scene = (replicate 16 \<lparr> ID = - 1, tag = ''/0'' \<rparr>)[0 := \<lparr> ID = 1, tag = ''wood'' \<rparr>]"
  by (simp_all add: wood_scene_def)

lemma red_box_fields:
  "position red_box = vec3 1 2 3" "rotations red_box = vec3 0 90 0" "scale red_box = vec3 2 2 2"
  "RGBA red_box = vec4 1 0 0 1" "texture red_box = ''wood''" "shaderMaterial red_box = []"
  "uvScale red_box = vec2 0 0" "shape red_box = draw BoxMesh"
  by (simp_all add: red_box_def object_ctor_def setTexture_def setRGBA_def setScale_def
      setRotations_def setPosition_def)

text \<open>
  The closed form once more, for a texture table within the bounds of the array: the
  lookup returns a slot, and \<open>render\<close> is the mesh selector applied after the
  submissions.
\<close>

lemma render_with_shader_in_bounds:
  assumes "m_pShaderManager sm = Some sh"
    and "m_loadedTextures sm \<le> length (m_textureIDs sm)"
  shows "\<exists>slot.
    FindTextureSlot sm (texture ob) = Inr slot \<and>
    (slot = - 1 \<and> texture ob \<notin> TEXTURE_INFO.tag ` set (texture_table sm) \<or>
     0 \<le> slot \<and> nat slot < length (texture_table sm) \<and>
     TEXTURE_INFO.tag (texture_table sm ! nat slot) = texture ob) \<and>
    render G U ob sm =
      shape ob (sm\<lparr> m_pShaderManager := Some (sh\<lparr> calls := calls sh @
        [setMat4Value ''model'' (model_matrix G (position ob) (rotations ob) (scale ob)),
         setIntValue ''bUseTexture'' 0,
         setVec4Value ''objectColor'' (RGBA ob)] @
        (if texture ob \<noteq> []
         then [setIntValue ''bUseTexture'' 1, setSampler2DValue ''objectTexture'' slot,
               setVec2Value ''UVscale'' (uvScale ob)]
         else []) @
        (if shaderMaterial ob \<noteq> [] \<and> m_objectMaterials sm \<noteq> []
         then material_uniforms (snd (FindMaterial sm (shaderMaterial ob) U))
         else []) \<rparr>) \<rparr>)"
proof -
  from FindTextureSlot_returns [OF assms(2), of "texture ob"] obtain slot where
    slot: "FindTextureSlot sm (texture ob) = Inr slot" and
    which: "slot = - 1 \<and> texture ob \<notin> TEXTURE_INFO.tag ` set (texture_table sm) \<or>
            0 \<le> slot \<and> nat slot < length (texture_table sm) \<and>
            TEXTURE_INFO.tag (texture_table sm ! nat slot) = texture ob"
    by blast
  have "render G U ob sm =
      shape ob (sm\<lparr> m_pShaderManager := Some (sh\<lparr> calls := calls sh @
        [setMat4Value ''model'' (model_matrix G (position ob) (rotations ob) (scale ob)),
         setIntValue ''bUseTexture'' 0,
         setVec4Value ''objectColor'' (RGBA ob)] @
        (if texture ob \<noteq> []
         then [setIntValue ''bUseTexture'' 1, setSampler2DValue ''objectTexture'' slot,
               setVec2Value ''UVscale'' (uvScale ob)]
         else []) @
        (if shaderMaterial ob \<noteq> [] \<and> m_objectMaterials sm \<noteq> []
         then material_uniforms (snd (FindMaterial sm (shaderMaterial ob) U))
         else []) \<rparr>) \<rparr>)"
    by (subst render_with_shader [OF assms(1)]) (simp add: slot)
  with slot which show ?thesis by blast
qed

text \<open>
  C3. A \<open>render()\<close> with position \<open>p\<close>, rotations \<open>r\<close> (degrees) and scale \<open>s\<close>
  submits to the shader manager, under the name "model", the matrix
  \<open>translation(p) \<cdot> rotationX(r.x) \<cdot> rotationY(r.y) \<cdot> rotationZ(r.z) \<cdot> scale(s)\<close>,
  the product taken in this order; it is the first uniform of the call and the only
  matrix among them. (The shader manager is attached and the texture count is within
  the array; with a null \<^verbatim>\<open>m_pShaderManager\<close> no matrix is submitted at all, see
  \<open>render_without_shader\<close>.)
\<close>

theorem render_submits_model_matrix:
  assumes "m_pShaderManager sm = Some sh"
    and "m_loadedTextures sm \<le> length (m_textureIDs sm)"
  shows "\<exists>rest sm'.
           render G U ob sm = shape ob sm' \<and>
           m_pShaderManager sm' =
             Some (sh\<lparr> calls := calls sh @
               setMat4Value ''model'' (model_matrix G (position ob) (rotations ob) (scale ob)) # rest \<rparr>) \<and>
           (\<forall>name M. setMat4Value name M \<notin> set rest)"
proof -
  from render_with_shader_in_bounds [OF assms, of ob G U] obtain slot where
    r: "render G U ob sm =
      shape ob (sm\<lparr> m_pShaderManager := Some (sh\<lparr> calls := calls sh @
        [setMat4Value ''model'' (model_matrix G (position ob) (rotations ob) (scale ob)),
         setIntValue ''bUseTexture'' 0,
         setVec4Value ''objectColor'' (RGBA ob)] @
        (if texture ob \<noteq> []
         then [setIntValue ''bUseTexture'' 1, setSampler2DValue ''objectTexture'' slot,
               setVec2Value ''UVscale'' (uvScale ob)]
         else []) @
        (if shaderMaterial ob \<noteq> [] \<and> m_objectMaterials sm \<noteq> []
         then material_uniforms (snd (FindMaterial sm (shaderMaterial ob) U))
         else []) \<rparr>) \<rparr>)" (is "_ = shape ob ?sm'")
    by blast
  let ?rest = "[setIntValue ''bUseTexture'' 0, setVec4Value ''objectColor'' (RGBA ob)] @
        (if texture ob \<noteq> []
         then [setIntValue ''bUseTexture'' 1, setSampler2DValue ''objectTexture'' slot,
               setVec2Value ''UVscale'' (uvScale ob)]
         else []) @
        (if shaderMaterial ob \<noteq> [] \<and> m_objectMaterials sm \<noteq> []
         then material_uniforms (snd (FindMaterial sm (shaderMaterial ob) U))
         else [])"
  have "m_pShaderManager ?sm' =
      Some (sh\<lparr> calls := calls sh @
        setMat4Value ''model'' (model_matrix G (position ob) (rotations ob) (scale ob)) # ?rest \<rparr>)"
    by simp
  moreover have "\<forall>name M. setMat4Value name M \<notin> set ?rest"
    by (simp add: material_uniforms_def)
  ultimately show ?thesis
    using r by blast
qed

text \<open>
  The end-to-end example of the specification: the matrix submitted is
  \<open>translate(1,2,3) \<cdot> rotateX(0) \<cdot> rotateY(90 degrees) \<cdot> rotateZ(0) \<cdot> scale(2,2,2)\<close>.
\<close>

theorem render_submits_model_matrix_witness:
  "\<exists>rest sm'.
     render glm_sym U0 red_box wood_scene = draw BoxMesh sm' \<and>
     m_pShaderManager sm' =
       Some \<lparr> calls =
         setMat4Value ''model''
           (Times (Times (Times (Times (Translate (vec3 1 2 3)) (Rotate 0 (vec3 1 0 0)))
              (Rotate (90 * 0.01745329251994329576923690768489) (vec3 0 1 0)))
              (Rotate 0 (vec3 0 0 1))) (Scale (vec3 2 2 2))) # rest \<rparr>"
proof -
  have "m_loadedTextures wood_scene \<le> length (m_textureIDs wood_scene)"
    by (simp add: wood_scene_textures)
  from render_submits_model_matrix [OF wood_scene_shader this, of glm_sym U0 red_box]
  show ?thesis
    by (simp add: red_box_fields model_matrix_def glm_sym_def sh0_def) blast
qed


text \<open>
  C8, for a scene manager with a shader manager attached (and a texture count within
  the array). If the texture tag is empty, \<open>render()\<close> submits the model matrix, the
  texture switch \<^verbatim>\<open>bUseTexture\<close> = 0 and the colour, then at most the material
  uniforms: the switch stays off, and neither a slot nor a UV scale is submitted. If
  the tag is not empty, the switch is then set to 1, the slot found by
  \<^verbatim>\<open>FindTextureSlot\<close> is submitted as \<^verbatim>\<open>objectTexture\<close> (-1 exactly when no
  registered entry has the tag, otherwise the index of an entry with the tag), and
  the UV scale is submitted as \<^verbatim>\<open>UVscale\<close>.
\<close>

theorem render_texture_branch:
  assumes "m_pShaderManager sm = Some sh"
    and "m_loadedTextures sm \<le> length (m_textureIDs sm)"
  shows "\<exists>slot mats sm'.
    render G U ob sm = shape ob sm' \<and>
    (mats = [] \<or> (\<exists>material. mats = material_uniforms material)) \<and>
    (if texture ob = []
     then m_pShaderManager sm' = Some (sh\<lparr> calls := calls sh @
            [setMat4Value ''model'' (model_matrix G (position ob) (rotations ob) (scale ob)),
             setIntValue ''bUseTexture'' 0,
             setVec4Value ''objectColor'' (RGBA ob)] @ mats \<rparr>)
     else FindTextureSlot sm (texture ob) = Inr slot \<and>
          (slot = - 1 \<and> texture ob \<notin> TEXTURE_INFO.tag ` set (texture_table sm) \<or>
           0 \<le> slot \<and> nat slot < length (texture_table sm) \<and>
           TEXTURE_INFO.tag (texture_table sm ! nat slot) = texture ob) \<and>
          m_pShaderManager sm' = Some (sh\<lparr> calls := calls sh @
            [setMat4Value ''model'' (model_matrix G (position ob) (rotations ob) (scale ob)),
             setIntValue ''bUseTexture'' 0,
             setVec4Value ''objectColor'' (RGBA ob),
             setIntValue ''bUseTexture'' 1,
             setSampler2DValue ''objectTexture'' slot,
             setVec2Value ''UVscale'' (uvScale ob)] @ mats \<rparr>))"
proof -
  let ?mats = "(if shaderMaterial ob \<noteq> [] \<and> m_objectMaterials sm \<noteq> []
         then material_uniforms (snd (FindMaterial sm (shaderMaterial ob) U))
         else []) :: 'a uniform list"
  from render_with_shader_in_bounds [OF assms, of ob G U] obtain slot where
    slot: "FindTextureSlot sm (texture ob) = Inr slot" and
    which: "slot = - 1 \<and> texture ob \<notin> TEXTURE_INFO.tag ` set (texture_table sm) \<or>
            0 \<le> slot \<and> nat slot < length (texture_table sm) \<and>
            TEXTURE_INFO.tag (texture_table sm ! nat slot) = texture ob" and
    r: "render G U ob sm =
      shape ob (sm\<lparr> m_pShaderManager := Some (sh\<lparr> calls := calls sh @
        [setMat4Value ''model'' (model_matrix G (position ob) (rotations ob) (scale ob)),
         setIntValue ''bUseTexture'' 0,
         setVec4Value ''objectColor'' (RGBA ob)] @
        (if texture ob \<noteq> []
         then [setIntValue ''bUseTexture'' 1, setSampler2DValue ''objectTexture'' slot,
               setVec2Value ''UVscale'' (uvScale ob)]
         else []) @ ?mats \<rparr>) \<rparr>)" (is "_ = shape ob ?sm'")
    by blast
  have mats: "?mats = [] \<or> (\<exists>material. ?mats = material_uniforms material)"
    by auto
  have "if texture ob = []
     then m_pShaderManager ?sm' = Some (sh\<lparr> calls := calls sh @
            [setMat4Value ''model'' (model_matrix G (position ob) (rotations ob) (scale ob)),
             setIntValue ''bUseTexture'' 0,
             setVec4Value ''objectColor'' (RGBA ob)] @ ?mats \<rparr>)
     else FindTextureSlot sm (texture ob) = Inr slot \<and>
          (slot = - 1 \<and> texture ob \<notin> TEXTURE_INFO.tag ` set (texture_table sm) \<or>
           0 \<le> slot \<and> nat slot < length (texture_table sm) \<and>
           TEXTURE_INFO.tag (texture_table sm ! nat slot) = texture ob) \<and>
          m_pShaderManager ?sm' = Some (sh\<lparr> calls := calls sh @
            [setMat4Value ''model'' (model_matrix G (position ob) (rotations ob) (scale ob)),
             setIntValue ''bUseTexture'' 0,
             setVec4Value ''objectColor'' (RGBA ob),
             setIntValue ''bUseTexture'' 1,
             setSampler2DValue ''objectTexture'' slot,
             setVec2Value ''UVscale'' (uvScale ob)] @ ?mats \<rparr>)"
    using slot which by simp
  with r mats show ?thesis
    by (intro exI [of _ slot] exI [of _ ?mats] exI [of _ ?sm'] conjI)
qed

text \<open>The end-to-end example: the texture "wood" sits in slot 0.\<close>

theorem render_texture_branch_witness:
  "\<exists>mats sm'.
     render glm_sym U0 red_box wood_scene = draw BoxMesh sm' \<and>
     m_pShaderManager sm' =
       Some \<lparr> calls =
         [setMat4Value ''model'' (model_matrix glm_sym (vec3 1 2 3) (vec3 0 90 0) (vec3 2 2 2)),
          setIntValue ''bUseTexture'' 0,
          setVec4Value ''objectColor'' (vec4 1 0 0 1),
          setIntValue ''bUseTexture'' 1,
          setSampler2DValue ''objectTexture'' 0,
          setVec2Value ''UVscale'' (vec2 0 0)] @ mats \<rparr>"
proof -
  have b: "m_loadedTextures wood_scene \<le> length (m_textureIDs wood_scene)"
    by (simp add: wood_scene_textures)
  have f: "FindTextureSlot wood_scene ''wood'' = Inr 0"
    by (simp add: FindTextureSlot_def FindTextureSlot_loop.simps wood_scene_textures)
  from render_texture_branch [OF wood_scene_shader b, of glm_sym U0 red_box] f
  show ?thesis
    by (simp add: red_box_fields sh0_def) blast
qed

text \<open>
  C8 as stated does not hold for every \<open>render()\<close>: with a null
  \<^verbatim>\<open>m_pShaderManager\<close> the guarded \<^verbatim>\<open>SetShaderTexture\<close> and
  \<^verbatim>\<open>SetTextureUVScale\<close> do nothing, so a non-empty texture tag switches nothing on
  and submits neither slot nor UV scale; the call only draws the mesh.
\<close>

theorem render_null_shader_enables_nothing:
  "render glm_sym U0 red_box (wood_scene\<lparr> m_pShaderManager := None \<rparr>) =
     Inr (wood_scene\<lparr> m_pShaderManager := None, m_basicMeshes := Some \<lparr> drawn = [BoxMesh] \<rparr> \<rparr>)"
  by (simp add: render_without_shader red_box_fields draw_def wood_scene_def
      DefineObjectMaterials_def push_back_def SceneManager_ctor_def Let_def)

text \<open>
  With a shader manager attached (and a texture count within the array), whatever the
  texture tag and the material tag are, and whether or not they are found,
  \<open>render()\<close> is the stored mesh selector applied once, to the scene manager as the
  uniform submissions \<open>us\<close> leave it. For the closures of the repository, which call
  one \<^verbatim>\<open>Draw...Mesh\<close>, the call returns and the mesh collaborator has seen exactly
  one more draw, of that mesh.
\<close>

lemma render_draws_once:
  assumes "m_pShaderManager sm = Some sh"
    and "m_loadedTextures sm \<le> length (m_textureIDs sm)"
  shows "\<exists>us.
    render G U ob sm = shape ob (sm\<lparr> m_pShaderManager := Some (sh\<lparr> calls := calls sh @ us \<rparr>) \<rparr>) \<and>
    (\<forall>k meshes. shape ob = draw k \<and> m_basicMeshes sm = Some meshes \<longrightarrow>
       (\<exists>sm'. render G U ob sm = Inr sm' \<and>
              m_basicMeshes sm' = Some (meshes\<lparr> drawn := drawn meshes @ [k] \<rparr>)))"
proof -
  from render_with_shader_in_bounds [OF assms, of ob G U] obtain us where
    r: "render G U ob sm =
          shape ob (sm\<lparr> m_pShaderManager := Some (sh\<lparr> calls := calls sh @ us \<rparr>) \<rparr>)"
    by blast
  have "\<exists>sm'. render G U ob sm = Inr sm' \<and>
              m_basicMeshes sm' = Some (meshes\<lparr> drawn := drawn meshes @ [k] \<rparr>)"
    if "shape ob = draw k \<and> m_basicMeshes sm = Some meshes" for k meshes
    using that r by (simp add: draw_def)
  with r show ?thesis by blast
qed

text \<open>Neither the texture tag "marble" nor the material tag "screen" is known to the scene.\<close>

lemma render_draws_once_example:
  "\<exists>sm'. render glm_sym U0 (setObjectShaderMaterial ''screen'' (setTexture ''marble'' object_ctor))
            wood_scene = Inr sm' \<and>
         m_basicMeshes sm' = Some \<lparr> drawn = [BoxMesh] \<rparr>"
proof -
  let ?ob = "setObjectShaderMaterial ''screen'' (setTexture ''marble'' object_ctor) :: mat4 object"
  have b: "m_loadedTextures wood_scene \<le> length (m_textureIDs wood_scene)"
    by (simp add: wood_scene_textures)
  have s: "shape ?ob = draw BoxMesh \<and> m_basicMeshes wood_scene = Some \<lparr> drawn = [] \<rparr>"
    by (simp add: setObjectShaderMaterial_def setTexture_def object_ctor_def wood_scene_def
        DefineObjectMaterials_def push_back_def SceneManager_ctor_def Let_def)
  from render_draws_once [OF wood_scene_shader b, of glm_sym U0 ?ob] s
  show ?thesis
    by auto
qed

text \<open>
  C10. The claim: every \<open>render()\<close> invokes the stored mesh-draw operation exactly
  once, after all uniform submissions, whether or not the texture tag and the
  material tag are found. The code on a scene manager constructed with a null shader
  manager, after \<^verbatim>\<open>DefineObjectMaterials\<close>, for an object with the material tag
  "glass": the four guarded forwarding functions do nothing, \<^verbatim>\<open>SetShaderMaterial\<close>
  finds the material table non-empty and calls through the null
  \<^verbatim>\<open>m_pShaderManager\<close>, and the mesh selector is not reached.
\<close>

theorem render_null_shader_material_fails:
  "render glm_sym U0 (setObjectShaderMaterial ''glass'' object_ctor)
     (DefineObjectMaterials (SceneManager_ctor None)) = Inl NullPointerDereference"
  by (simp add: render_without_shader setObjectShaderMaterial_def object_ctor_def
      DefineObjectMaterials_def push_back_def SceneManager_ctor_def Let_def)

section \<open>The material table\<close>

text \<open>
  A tag that no record of the table carries: the loop runs to the end of the table
  and leaves \<^verbatim>\<open>material\<close> as it was; \<^verbatim>\<open>FindMaterial\<close> then returns
  \<^verbatim>\<open>true\<close>, and \<^verbatim>\<open>SetShaderMaterial\<close> submits the five fields of its
  uninitialised local.
\<close>

lemma FindMaterial_loop_absent:
  assumes "\<forall>j. i \<le> j \<and> j < length (m_objectMaterials sm) \<longrightarrow>
             OBJECT_MATERIAL.tag (m_objectMaterials sm ! j) \<noteq> tg"
  shows "FindMaterial_loop sm tg material i False = material"
  using assms
proof (induction "length (m_objectMaterials sm) - i" arbitrary: i)
  case 0
  then show ?case
    by (subst FindMaterial_loop.simps) simp
next
  case (Suc d)
  then have lt: "i < length (m_objectMaterials sm)"
    and d: "d = length (m_objectMaterials sm) - (i + 1)" by simp_all
  from Suc.prems lt have miss: "OBJECT_MATERIAL.tag (m_objectMaterials sm ! i) \<noteq> tg" by simp
  have "FindMaterial_loop sm tg material (i + 1) False = material"
    using Suc.prems by (intro Suc.hyps(1) d) auto
  with lt miss show ?case
    by (subst FindMaterial_loop.simps) simp
qed

lemma FindMaterial_absent:
  assumes "m_objectMaterials sm \<noteq> []"
    and "tg \<notin> OBJECT_MATERIAL.tag ` set (m_objectMaterials sm)"
  shows "FindMaterial sm tg material = (True, material)"
proof -
  from assms(2) have "\<forall>j. 0 \<le> j \<and> j < length (m_objectMaterials sm) \<longrightarrow>
             OBJECT_MATERIAL.tag (m_objectMaterials sm ! j) \<noteq> tg"
    by (metis image_eqI nth_mem)
  then have "FindMaterial_loop sm tg material 0 False = material"
    by (rule FindMaterial_loop_absent)
  with assms(1) show ?thesis
    by (simp add: FindMaterial_def)
qed

lemma SetShaderMaterial_absent:
  assumes "m_objectMaterials sm \<noteq> []"
    and "tg \<notin> OBJECT_MATERIAL.tag ` set (m_objectMaterials sm)"
    and "m_pShaderManager sm = Some sh"
  shows "SetShaderMaterial U tg sm =
           Inr (sm\<lparr> m_pShaderManager := Some (sh\<lparr> calls := calls sh @ material_uniforms U \<rparr>) \<rparr>)"
  using assms by (simp add: SetShaderMaterial_def FindMaterial_absent)

text \<open>
  \<^verbatim>\<open>DefineObjectMaterials\<close> appends seven records to the table and touches nothing
  else.
\<close>

lemma DefineObjectMaterials_appends:
  "m_objectMaterials (DefineObjectMaterials sm) =
     m_objectMaterials sm @
     [ \<lparr> ambientColor = vec3 0.2 0.2 0.2, ambientStrength = 0.3,
         diffuseColor = vec3 0.2 0.2 0.2, specularColor = vec3 0.5 0.5 0.5,
         shininess = 22.0, tag = ''metal'' \<rparr>,
       \<lparr> ambientColor = vec3 0.1 0.1 0.1, ambientStrength = 0.2,
         diffuseColor = vec3 0.23 0.23 0.23, specularColor = vec3 0.1 0.1 0.1,
         shininess = 0.3, tag = ''wood'' \<rparr>,
       \<lparr> ambientColor = vec3 0.4 0.4 0.4, ambientStrength = 0.3,
         diffuseColor = vec3 0.3 0.3 0.3, specularColor = vec3 0.6 0.6 0.6,
         shininess = 85.0, tag = ''glass'' \<rparr>,
       \<lparr> ambientColor = vec3 0.2 0.2 0.2, ambientStrength = 0.4,
         diffuseColor = vec3 0.1 0.1 0.1, specularColor = vec3 0.1 0.1 0.1,
         shininess = 0.05, tag = ''soft'' \<rparr>,
       \<lparr> ambientColor = vec3 0.2 0.2 0.2, ambientStrength = 0.3,
         diffuseColor = vec3 0.5 0.5 0.5, specularColor = vec3 0.3 0.3 0.3,
         shininess = 0.5, tag = ''wall'' \<rparr>,
       \<lparr> ambientColor = vec3 0.2 0.2 0.2, ambientStrength = 0.2,
         diffuseColor = vec3 0.1 0.1 0.1, specularColor = vec3 0.0 0.0 0.0,
         shininess = 0.0, tag = ''matte'' \<rparr>,
       \<lparr> ambientColor = vec3 0.1 0.1 0.1, ambientStrength = 0.1,
         diffuseColor = vec3 0.3 0.2 0.3, specularColor = vec3 0.4 0.2 0.2,
         shininess = 0.5, tag = ''hedge'' \<rparr> ]"
  by (simp add: DefineObjectMaterials_def push_back_def Let_def)

lemma DefineObjectMaterials_others:
  "m_pShaderManager (DefineObjectMaterials sm) = m_pShaderManager sm"
  "m_basicMeshes (DefineObjectMaterials sm) = m_basicMeshes sm"
  "m_textureIDs (DefineObjectMaterials sm) = m_textureIDs sm"
  "m_loadedTextures (DefineObjectMaterials sm) = m_loadedTextures sm"
  by (simp_all add: DefineObjectMaterials_def push_back_def Let_def)

text \<open>
  C1. The claim: for a tag that is not in the (non-empty) material table the lookup
  reports absence, and \<^verbatim>\<open>SetShaderMaterial\<close> then submits no material field. The
  code at the table of \<^verbatim>\<open>DefineObjectMaterials\<close> and the tag "screen", which is not
  in it: \<^verbatim>\<open>FindMaterial\<close> returns \<^verbatim>\<open>true\<close> with the record it was given, untouched,
  and \<^verbatim>\<open>SetShaderMaterial\<close> submits all five material uniforms, filled from its
  uninitialised local (here \<open>U0\<close>, all sevens).
\<close>

theorem FindMaterial_unknown_tag_reports_true:
  "FindMaterial (DefineObjectMaterials (SceneManager_ctor (Some sh0))) ''screen'' U0 = (True, U0) \<and>
   SetShaderMaterial U0 ''screen'' (DefineObjectMaterials (SceneManager_ctor (Some sh0))) =
     Inr ((DefineObjectMaterials (SceneManager_ctor (Some sh0)))
            \<lparr> m_pShaderManager := Some \<lparr> calls =
                [ setVec3Value ''material.ambientColor'' (vec3 7 7 7),
                  setFloatValue ''material.ambientStrength'' 7,
                  setVec3Value ''material.diffuseColor'' (vec3 7 7 7),
                  setVec3Value ''material.specularColor'' (vec3 7 7 7),
                  setFloatValue ''material.shininess'' 7 ] \<rparr> \<rparr>)"
proof -
  let ?sm = "DefineObjectMaterials (SceneManager_ctor (Some sh0)) :: mat4 SceneManager"
  have m: "m_objectMaterials ?sm \<noteq> []"
    and t: "''screen'' \<notin> OBJECT_MATERIAL.tag ` set (m_objectMaterials ?sm)"
    and s: "m_pShaderManager ?sm = Some sh0"
    by (simp_all add: DefineObjectMaterials_appends DefineObjectMaterials_others SceneManager_ctor_def)
  have a: "FindMaterial ?sm ''screen'' U0 = (True, U0)"
    by (rule FindMaterial_absent [OF m t])
  have b: "SetShaderMaterial U0 ''screen'' ?sm =
      Inr (?sm\<lparr> m_pShaderManager := Some (sh0\<lparr> calls := calls sh0 @ material_uniforms U0 \<rparr>) \<rparr>)"
    by (rule SetShaderMaterial_absent [OF m t s])
  show ?thesis
    unfolding a b by (simp add: material_uniforms_def U0_def sh0_def)
qed

text \<open>
  C2, as the code has it. \<^verbatim>\<open>DefineObjectMaterials\<close> leaves the records already in
  the material table in place and appends new ones; none of the new records has the
  tag "screen", and the one new record with the tag "glass" holds the values it was
  pushed with: ambient colour (0.4,0.4,0.4), ambient strength 0.3, diffuse colour
  (0.3,0.3,0.3), specular colour (0.6,0.6,0.6), shininess 85. The later assignments
  change the local variable \<^verbatim>\<open>glassMaterial\<close>, of which the table holds a copy. On
  a newly constructed scene manager the new records are the whole table.
\<close>

theorem DefineObjectMaterials_leaves_glass:
  "\<exists>new.
     m_objectMaterials (DefineObjectMaterials sm) = m_objectMaterials sm @ new \<and>
     m_objectMaterials (DefineObjectMaterials (SceneManager_ctor p)) = new \<and>
     ''screen'' \<notin> OBJECT_MATERIAL.tag ` set new \<and>
     filter (\<lambda>m. OBJECT_MATERIAL.tag m = ''glass'') new =
       [ \<lparr> ambientColor = vec3 0.4 0.4 0.4, ambientStrength = 0.3,
           diffuseColor = vec3 0.3 0.3 0.3, specularColor = vec3 0.6 0.6 0.6,
           shininess = 85.0, tag = ''glass'' \<rparr> ]"
  by (simp add: DefineObjectMaterials_appends SceneManager_ctor_def)

text \<open>
  C2 as stated does not hold: the record with the tag "glass" in the table (there is
  one, at index 2) has neither the ambient colour (0.298,0.694,0.929) nor the ambient
  strength 0.2 nor the shininess 10 of the screen material.
\<close>

theorem glass_record_not_overwritten:
  "OBJECT_MATERIAL.tag (m_objectMaterials (DefineObjectMaterials (SceneManager_ctor (Some sh0))) ! 2) = ''glass'' \<and>
   ambientColor (m_objectMaterials (DefineObjectMaterials (SceneManager_ctor (Some sh0))) ! 2) \<noteq> vec3 0.298 0.694 0.929 \<and>
   ambientStrength (m_objectMaterials (DefineObjectMaterials (SceneManager_ctor (Some sh0))) ! 2) \<noteq> 0.2 \<and>
   shininess (m_objectMaterials (DefineObjectMaterials (SceneManager_ctor (Some sh0))) ! 2) \<noteq> 10.0 \<and>
   length (filter (\<lambda>m. OBJECT_MATERIAL.tag m = ''glass'')
     (m_objectMaterials (DefineObjectMaterials (SceneManager_ctor (Some sh0))))) = 1"
  by (simp add: DefineObjectMaterials_appends SceneManager_ctor_def)

section \<open>Loading textures\<close>

text \<open>
  The three outcomes of \<^verbatim>\<open>CreateGLTexture\<close>: the file does not decode to an image
  of 3 or 4 channels (\<^verbatim>\<open>false\<close>, the scene manager as it was); it does and the
  table has room (\<^verbatim>\<open>true\<close>, one entry stored at index \<^verbatim>\<open>m_loadedTextures\<close>, the
  count one up); it does and the table is full (the store is outside the array).
\<close>

lemma CreateGLTexture_fails:
  assumes "\<not> decodes stbi_load filename"
  shows "\<exists>g'. CreateGLTexture stbi_load filename tg sm g = Inr (False, sm, g')"
  using assms
  by (auto simp: CreateGLTexture_def decodes_def Let_def split: option.splits prod.splits)

lemma TEXTURE_INFO_assign_both:
  "(e :: TEXTURE_INFO)\<lparr> ID := a, tag := b \<rparr> = \<lparr> ID = a, tag = b \<rparr>"
  by (cases e) simp

lemma CreateGLTexture_succeeds:
  assumes "decodes stbi_load filename"
    and "m_loadedTextures sm < length (m_textureIDs sm)"
  shows "\<exists>g'. CreateGLTexture stbi_load filename tg sm g =
           Inr (True,
                sm\<lparr> m_textureIDs := (m_textureIDs sm)[m_loadedTextures sm := \<lparr> ID = gl_next g, tag = tg \<rparr>],
                    m_loadedTextures := m_loadedTextures sm + 1 \<rparr>,
                g')"
  using assms
  by (auto simp: CreateGLTexture_def decodes_def register_texture_def gen_texture_def Let_def
      TEXTURE_INFO_assign_both split: option.splits prod.splits)

lemma CreateGLTexture_overflows:
  assumes "decodes stbi_load filename"
    and "\<not> m_loadedTextures sm < length (m_textureIDs sm)"
  shows "CreateGLTexture stbi_load filename tg sm g = Inl ArrayIndexOutOfBounds"
  using assms
  by (auto simp: CreateGLTexture_def decodes_def register_texture_def gen_texture_def Let_def
      split: option.splits prod.splits)

lemma texture_table_append:
  assumes "m_loadedTextures sm < length (m_textureIDs sm)"
  shows "texture_table (sm\<lparr> m_textureIDs := (m_textureIDs sm)[m_loadedTextures sm := e],
                            m_loadedTextures := m_loadedTextures sm + 1 \<rparr>) =
         texture_table sm @ [e]"
  using assms by (simp add: texture_table_def take_Suc_conv_app_nth)


text \<open>
  A run of loads that comes to its end keeps the count within the array, and the tags
  of the registered entries are those of the successful loads, in the order of the
  calls.
\<close>

lemma load_all_table:
  assumes "load_all stbi_load ls sm g = Inr (sm', g')"
    and "m_loadedTextures sm \<le> length (m_textureIDs sm)"
  shows "m_loadedTextures sm' \<le> length (m_textureIDs sm') \<and>
         length (m_textureIDs sm') = length (m_textureIDs sm) \<and>
         map TEXTURE_INFO.tag (texture_table sm') =
           map TEXTURE_INFO.tag (texture_table sm) @ loaded_tags stbi_load ls"
  using assms
proof (induction ls arbitrary: sm g)
  case Nil
  then show ?case by (simp add: loaded_tags_def)
next
  case (Cons l ls)
  obtain filename tg where l: "l = (filename, tg)" by (cases l)
  show ?case
  proof (cases "decodes stbi_load filename")
    case False
    then obtain g1 where "CreateGLTexture stbi_load filename tg sm g = Inr (False, sm, g1)"
      using CreateGLTexture_fails by blast
    with Cons.prems l have "load_all stbi_load ls sm g1 = Inr (sm', g')" by simp
    from Cons.IH [OF this Cons.prems(2)] False l show ?thesis
      by (simp add: loaded_tags_def)
  next
    case True
    show ?thesis
    proof (cases "m_loadedTextures sm < length (m_textureIDs sm)")
      case False
      with True have "CreateGLTexture stbi_load filename tg sm g = Inl ArrayIndexOutOfBounds"
        by (rule CreateGLTexture_overflows)
      with Cons.prems l show ?thesis by simp
    next
      case room: True
      let ?sm1 = "sm\<lparr> m_textureIDs :=
                      (m_textureIDs sm)[m_loadedTextures sm := \<lparr> ID = gl_next g, tag = tg \<rparr>],
                    m_loadedTextures := m_loadedTextures sm + 1 \<rparr>"
      from True room obtain g1 where
        "CreateGLTexture stbi_load filename tg sm g = Inr (True, ?sm1, g1)"
        using CreateGLTexture_succeeds by blast
      with Cons.prems l have rest: "load_all stbi_load ls ?sm1 g1 = Inr (sm', g')" by simp
      from room have "m_loadedTextures ?sm1 \<le> length (m_textureIDs ?sm1)" by simp
      from Cons.IH [OF rest this] have
        "m_loadedTextures sm' \<le> length (m_textureIDs sm')"
        "length (m_textureIDs sm') = length (m_textureIDs sm)"
        "map TEXTURE_INFO.tag (texture_table sm') =
           map TEXTURE_INFO.tag (texture_table ?sm1) @ loaded_tags stbi_load ls"
        by simp_all
      moreover from room have "texture_table ?sm1 = texture_table sm @ [\<lparr> ID = gl_next g, tag = tg \<rparr>]"
        by (rule texture_table_append)
      ultimately show ?thesis
        using True l by (simp add: loaded_tags_def)
    qed
  qed
qed

lemma SceneManager_ctor_table:
  "length (m_textureIDs (SceneManager_ctor p)) = 16"
  "m_loadedTextures (SceneManager_ctor p) = 0"
  "texture_table (SceneManager_ctor p) = []"
  by (simp_all add: SceneManager_ctor_def texture_table_def)

lemma first_occurrence_append:
  assumes "k < length xs" and "xs ! k = x" and "\<forall>j < k. xs ! j \<noteq> x"
  shows "k < length (xs @ ys) \<and> (xs @ ys) ! k = x \<and> (\<forall>j < k. (xs @ ys) ! j \<noteq> x)"
  using assms by (simp add: nth_append)

lemma FindTextureSlot_first_tag:
  assumes "m_loadedTextures sm \<le> length (m_textureIDs sm)"
    and "map TEXTURE_INFO.tag (texture_table sm) = ts"
    and "k < length ts" and "ts ! k = tg" and "\<forall>j < k. ts ! j \<noteq> tg"
  shows "FindTextureSlot sm tg = Inr (int k)"
proof -
  from assms(2,3) have "k < length (texture_table sm)" by auto
  moreover from this assms(2,4) have "TEXTURE_INFO.tag (texture_table sm ! k) = tg"
    by (metis nth_map)
  moreover from \<open>k < length (texture_table sm)\<close> assms(2,5)
  have "\<forall>j < k. TEXTURE_INFO.tag (texture_table sm ! j) \<noteq> tg"
    by (metis nth_map order.strict_trans)
  ultimately show ?thesis
    using assms(1) by (intro FindTextureSlot_hit)
qed

text \<open>
  A run of loads comes to its end when the successful ones among them fit into the
  entries that are still free; the loads that fail take no entry.
\<close>

lemma loaded_tags_Cons:
  "loaded_tags stbi_load ((filename, tg) # ls) =
     (if decodes stbi_load filename then tg # loaded_tags stbi_load ls
      else loaded_tags stbi_load ls)"
  by (simp add: loaded_tags_def)

lemma loaded_tags_append:
  "loaded_tags stbi_load (ls @ ls') = loaded_tags stbi_load ls @ loaded_tags stbi_load ls'"
  by (simp add: loaded_tags_def)

lemma load_all_returns:
  assumes "m_loadedTextures sm + length (loaded_tags stbi_load ls) \<le> length (m_textureIDs sm)"
  shows "\<exists>sm' g'. load_all stbi_load ls sm g = Inr (sm', g')"
  using assms
proof (induction ls arbitrary: sm g)
  case Nil
  then show ?case by simp
next
  case (Cons l ls)
  obtain filename tg where l: "l = (filename, tg)" by (cases l)
  show ?case
  proof (cases "decodes stbi_load filename")
    case False
    then obtain g1 where c: "CreateGLTexture stbi_load filename tg sm g = Inr (False, sm, g1)"
      using CreateGLTexture_fails by blast
    from Cons.prems False l
    have "m_loadedTextures sm + length (loaded_tags stbi_load ls) \<le> length (m_textureIDs sm)"
      by (simp add: loaded_tags_Cons)
    from Cons.IH [OF this, of g1] c l show ?thesis by simp
  next
    case True
    with Cons.prems l have room: "m_loadedTextures sm < length (m_textureIDs sm)"
      by (simp add: loaded_tags_Cons)
    let ?sm1 = "sm\<lparr> m_textureIDs :=
                    (m_textureIDs sm)[m_loadedTextures sm := \<lparr> ID = gl_next g, tag = tg \<rparr>],
                  m_loadedTextures := m_loadedTextures sm + 1 \<rparr>"
    from True room obtain g1 where
      c: "CreateGLTexture stbi_load filename tg sm g = Inr (True, ?sm1, g1)"
      using CreateGLTexture_succeeds by blast
    from Cons.prems True l
    have "m_loadedTextures ?sm1 + length (loaded_tags stbi_load ls) \<le> length (m_textureIDs ?sm1)"
      by (simp add: loaded_tags_Cons)
    from Cons.IH [OF this, of g1] c l show ?thesis by simp
  qed
qed

lemma load_all_append:
  "load_all stbi_load (ls @ ls') sm g =
     (case load_all stbi_load ls sm g of
        Inl e \<Rightarrow> Inl e
      | Inr (sm', g') \<Rightarrow> load_all stbi_load ls' sm' g')"
  by (induction ls arbitrary: sm g) (auto split: sum.splits)

text \<open>
  C6, with the capacity of the table made explicit. Take a newly constructed scene
  manager and a run of \<^verbatim>\<open>CreateGLTexture\<close> calls of which at most 16 succeed. The
  run comes to its end, and then: for a tag that no successful load registered,
  \<^verbatim>\<open>FindTextureSlot\<close> returns -1; for a tag that a successful load registered it
  returns an index \<open>k\<close> below 16 at which the tag was appended (the \<open>k\<close>-th
  successful load, counted from 0, had this tag, and none before it had), and every
  further run of loads that keeps the number of successful loads at 16 or below comes
  to its end too and leaves \<^verbatim>\<open>FindTextureSlot\<close> returning the same \<open>k\<close>.
\<close>

theorem FindTextureSlot_after_loads:
  assumes "length (loaded_tags stbi_load ls) \<le> 16"
  shows "\<exists>sm g'.
     load_all stbi_load ls (SceneManager_ctor p) g = Inr (sm, g') \<and>
     (tg \<notin> set (loaded_tags stbi_load ls) \<longrightarrow> FindTextureSlot sm tg = Inr (- 1)) \<and>
     (tg \<in> set (loaded_tags stbi_load ls) \<longrightarrow>
        (\<exists>k. FindTextureSlot sm tg = Inr (int k) \<and> k < 16 \<and>
             k < length (loaded_tags stbi_load ls) \<and> loaded_tags stbi_load ls ! k = tg \<and>
             (\<forall>j < k. loaded_tags stbi_load ls ! j \<noteq> tg) \<and>
             (\<forall>ls'. length (loaded_tags stbi_load (ls @ ls')) \<le> 16 \<longrightarrow>
                (\<exists>sm' g''. load_all stbi_load ls' sm g' = Inr (sm', g'') \<and>
                           FindTextureSlot sm' tg = Inr (int k)))))"
proof -
  let ?ts = "loaded_tags stbi_load ls"
  from assms have
    "m_loadedTextures (SceneManager_ctor p) + length ?ts \<le> length (m_textureIDs (SceneManager_ctor p))"
    by (simp add: SceneManager_ctor_table)
  from load_all_returns [OF this, of g] obtain sm g' where
    run: "load_all stbi_load ls (SceneManager_ctor p) g = Inr (sm, g')"
    by blast
  from load_all_table [OF run] have
    wf: "m_loadedTextures sm \<le> length (m_textureIDs sm)" and
    len: "length (m_textureIDs sm) = 16" and
    tags: "map TEXTURE_INFO.tag (texture_table sm) = ?ts"
    by (simp_all add: SceneManager_ctor_table)
  from tags have "length ?ts = length (texture_table sm)"
    by (metis length_map)
  with wf have count: "m_loadedTextures sm = length ?ts"
    by (simp add: texture_table_length)
  have miss: "FindTextureSlot sm tg = Inr (- 1)" if "tg \<notin> set ?ts"
  proof -
    from that tags have "tg \<notin> TEXTURE_INFO.tag ` set (texture_table sm)"
      by (metis set_map)
    with wf show ?thesis by (rule FindTextureSlot_miss)
  qed
  have hit: "\<exists>k. FindTextureSlot sm tg = Inr (int k) \<and> k < 16 \<and>
             k < length ?ts \<and> ?ts ! k = tg \<and> (\<forall>j < k. ?ts ! j \<noteq> tg) \<and>
             (\<forall>ls'. length (loaded_tags stbi_load (ls @ ls')) \<le> 16 \<longrightarrow>
                (\<exists>sm' g''. load_all stbi_load ls' sm g' = Inr (sm', g'') \<and>
                           FindTextureSlot sm' tg = Inr (int k)))" if "tg \<in> set ?ts"
  proof -
    from that obtain k where k: "k < length ?ts" "?ts ! k = tg" "\<forall>j < k. ?ts ! j \<noteq> tg"
      by (rule first_occurrence)
    from wf tags k have here: "FindTextureSlot sm tg = Inr (int k)"
      by (rule FindTextureSlot_first_tag)
    from assms k(1) have "k < 16" by simp
    moreover have "\<exists>sm' g''. load_all stbi_load ls' sm g' = Inr (sm', g'') \<and>
                           FindTextureSlot sm' tg = Inr (int k)"
      if fits: "length (loaded_tags stbi_load (ls @ ls')) \<le> 16" for ls'
    proof -
      from fits count len have
        "m_loadedTextures sm + length (loaded_tags stbi_load ls') \<le> length (m_textureIDs sm)"
        by (simp add: loaded_tags_append)
      from load_all_returns [OF this, of g'] obtain sm' g'' where
        later: "load_all stbi_load ls' sm g' = Inr (sm', g'')"
        by blast
      from load_all_table [OF later wf] tags have
        wf': "m_loadedTextures sm' \<le> length (m_textureIDs sm')" and
        tags': "map TEXTURE_INFO.tag (texture_table sm') = ?ts @ loaded_tags stbi_load ls'"
        by simp_all
      from first_occurrence_append [OF k] have
        "k < length (?ts @ loaded_tags stbi_load ls')"
        "(?ts @ loaded_tags stbi_load ls') ! k = tg"
        "\<forall>j < k. (?ts @ loaded_tags stbi_load ls') ! j \<noteq> tg"
        by blast+
      with wf' tags' have "FindTextureSlot sm' tg = Inr (int k)"
        by (rule FindTextureSlot_first_tag)
      with later show ?thesis by blast
    qed
    ultimately show ?thesis
      using here k by blast
  qed
  from run miss hit show ?thesis by blast
qed

text \<open>
  Four loads: "wood" (3 channels) and "clouds" (4 channels) succeed, "gray"
  (1 channel) and "missing" (no such file) do not.
\<close>

theorem FindTextureSlot_after_loads_witness:
  "\<exists>sm g'.
     load_all stbi0
       [(''Textures/wood.jpg'', ''wood''), (''Textures/gray.png'', ''gray''),
        (''Textures/clouds.png'', ''clouds''), (''Textures/missing.jpg'', ''missing'')]
       (SceneManager_ctor (Some sh0)) gl0 = Inr (sm, g') \<and>
     FindTextureSlot sm ''gray'' = Inr (- 1) \<and>
     (\<exists>k. FindTextureSlot sm ''clouds'' = Inr (int k) \<and> k < 16)"
proof -
  let ?ls = "[(''Textures/wood.jpg'', ''wood''), (''Textures/gray.png'', ''gray''),
        (''Textures/clouds.png'', ''clouds''), (''Textures/missing.jpg'', ''missing'')]"
  have t: "loaded_tags stbi0 ?ls = [''wood'', ''clouds'']"
    by (simp add: loaded_tags_def decodes_def stbi0_def)
  then have fits: "length (loaded_tags stbi0 ?ls) \<le> 16"
    by simp
  from FindTextureSlot_after_loads [OF fits, of "Some sh0" gl0 "''gray''"] t
  obtain sm g' where
    r: "load_all stbi0 ?ls (SceneManager_ctor (Some sh0)) gl0 = Inr (sm, g')" and
    gray: "FindTextureSlot sm ''gray'' = Inr (- 1)"
    by auto
  from FindTextureSlot_after_loads [OF fits, of "Some sh0" gl0 "''clouds''"] t r
  have "\<exists>k. FindTextureSlot sm ''clouds'' = Inr (int k) \<and> k < 16"
    by auto
  with r gray show ?thesis by blast
qed

text \<open>The full table is what sixteen successful loads leave.\<close>

lemma full_scene_loaded:
  "\<exists>g. load_all stbi0 (replicate 16 (''Textures/wood.jpg'', ''wood''))
          (SceneManager_ctor (Some sh0)) gl0 = Inr (full_scene, g)"
  by (simp add: texture_defs full_scene_def Let_def eval_nat_numeral)

text \<open>
  C6 as stated does not hold for every successfully decoded load: after sixteen
  successful loads the table is full, and a seventeenth load, of a file that decodes
  to 4 channels, stores outside the array; the run does not come to its end, and the
  tag "clouds" has no index below 16 (the full table answers -1 for it).
\<close>

theorem seventeenth_load_gets_no_slot:
  "decodes stbi0 ''Textures/clouds.png'' \<and>
   load_all stbi0
     (replicate 16 (''Textures/wood.jpg'', ''wood'') @ [(''Textures/clouds.png'', ''clouds'')])
     (SceneManager_ctor (Some sh0)) gl0 = Inl ArrayIndexOutOfBounds \<and>
   FindTextureSlot full_scene ''clouds'' = Inr (- 1)"
proof -
  have d: "decodes stbi0 ''Textures/clouds.png''"
    by (simp add: decodes_def stbi0_def)
  from full_scene_loaded obtain g where
    sixteen: "load_all stbi0 (replicate 16 (''Textures/wood.jpg'', ''wood''))
                (SceneManager_ctor (Some sh0)) gl0 = Inr (full_scene, g)"
    by blast
  have full: "\<not> m_loadedTextures full_scene < length (m_textureIDs full_scene)"
    by (simp add: full_scene_def)
  from d full have "CreateGLTexture stbi0 ''Textures/clouds.png'' ''clouds'' full_scene g =
      Inl ArrayIndexOutOfBounds"
    by (rule CreateGLTexture_overflows)
  with sixteen have run: "load_all stbi0
     (replicate 16 (''Textures/wood.jpg'', ''wood'') @ [(''Textures/clouds.png'', ''clouds'')])
     (SceneManager_ctor (Some sh0)) gl0 = Inl ArrayIndexOutOfBounds"
    by (simp add: load_all_append)
  have "m_loadedTextures full_scene \<le> length (m_textureIDs full_scene)"
    and "''clouds'' \<notin> TEXTURE_INFO.tag ` set (texture_table full_scene)"
    by (simp_all add: full_scene_def texture_table_def)
  then have "FindTextureSlot full_scene ''clouds'' = Inr (- 1)"
    by (rule FindTextureSlot_miss)
  with d run show ?thesis by simp
qed

text \<open>
  C7, with the capacity of the table made explicit. For a file that decodes to an
  image whose channel count is neither 3 nor 4, \<^verbatim>\<open>CreateGLTexture\<close> returns
  \<^verbatim>\<open>false\<close> and leaves the scene manager, and with it the texture table and the
  count, as they were. For a file that decodes to an image of 3 or 4 channels, while
  fewer than 16 textures are loaded, it returns \<^verbatim>\<open>true\<close>, the registered entries
  are the former ones followed by exactly one new entry (the generated name and the
  tag), and the count is one up.
\<close>

theorem CreateGLTexture_by_channels:
  assumes "stbi_load filename = Some img"
  shows "(colorChannels img \<noteq> 3 \<and> colorChannels img \<noteq> 4 \<longrightarrow>
           (\<exists>g'. CreateGLTexture stbi_load filename tg sm g = Inr (False, sm, g'))) \<and>
         ((colorChannels img = 3 \<or> colorChannels img = 4) \<and>
          length (m_textureIDs sm) = 16 \<and> m_loadedTextures sm < 16 \<longrightarrow>
           (\<exists>sm' g'. CreateGLTexture stbi_load filename tg sm g = Inr (True, sm', g') \<and>
              texture_table sm' = texture_table sm @ [\<lparr> ID = gl_next g, tag = tg \<rparr>] \<and>
              m_loadedTextures sm' = m_loadedTextures sm + 1))"
proof (intro conjI impI)
  assume "colorChannels img \<noteq> 3 \<and> colorChannels img \<noteq> 4"
  with assms have "\<not> decodes stbi_load filename"
    by (simp add: decodes_def)
  then show "\<exists>g'. CreateGLTexture stbi_load filename tg sm g = Inr (False, sm, g')"
    by (rule CreateGLTexture_fails)
next
  assume a: "(colorChannels img = 3 \<or> colorChannels img = 4) \<and>
    length (m_textureIDs sm) = 16 \<and> m_loadedTextures sm < 16"
  with assms have d: "decodes stbi_load filename"
    by (simp add: decodes_def)
  from a have room: "m_loadedTextures sm < length (m_textureIDs sm)"
    by simp
  let ?sm' = "sm\<lparr> m_textureIDs := (m_textureIDs sm)[m_loadedTextures sm := \<lparr> ID = gl_next g, tag = tg \<rparr>],
                   m_loadedTextures := m_loadedTextures sm + 1 \<rparr>"
  from CreateGLTexture_succeeds [OF d room] obtain g' where
    "CreateGLTexture stbi_load filename tg sm g = Inr (True, ?sm', g')"
    by blast
  moreover from room have "texture_table ?sm' = texture_table sm @ [\<lparr> ID = gl_next g, tag = tg \<rparr>]"
    by (rule texture_table_append)
  moreover have "m_loadedTextures ?sm' = m_loadedTextures sm + 1"
    by simp
  ultimately show "\<exists>sm' g'. CreateGLTexture stbi_load filename tg sm g = Inr (True, sm', g') \<and>
              texture_table sm' = texture_table sm @ [\<lparr> ID = gl_next g, tag = tg \<rparr>] \<and>
              m_loadedTextures sm' = m_loadedTextures sm + 1"
    by blast
qed

text \<open>A 1-channel and a 4-channel file, loaded into the scene that holds "wood".\<close>

theorem CreateGLTexture_by_channels_witness:
  "(\<exists>g'. CreateGLTexture stbi0 ''Textures/gray.png'' ''gray'' wood_scene gl_after_wood =
           Inr (False, wood_scene, g')) \<and>
   (\<exists>sm' g'. CreateGLTexture stbi0 ''Textures/clouds.png'' ''clouds'' wood_scene gl_after_wood =
           Inr (True, sm', g') \<and>
           texture_table sm' = [\<lparr> ID = 1, tag = ''wood'' \<rparr>, \<lparr> ID = 2, tag = ''clouds'' \<rparr>])"
proof -
  have gray: "stbi0 ''Textures/gray.png'' = Some \<lparr> width = 64, height = 64, colorChannels = 1 \<rparr>"
    and clouds: "stbi0 ''Textures/clouds.png'' = Some \<lparr> width = 256, height = 128, colorChannels = 4 \<rparr>"
    by (simp_all add: stbi0_def)
  have t: "texture_table wood_scene = [\<lparr> ID = 1, tag = ''wood'' \<rparr>]"
    "length (m_textureIDs wood_scene) = 16" "m_loadedTextures wood_scene < 16"
    "gl_next gl_after_wood = 2"
    by (simp_all add: texture_table_def wood_scene_textures gl_after_wood_def eval_nat_numeral)
  from CreateGLTexture_by_channels [where stbi_load = stbi0 and filename = "''Textures/gray.png''"
      and tg = "''gray''" and sm = wood_scene and g = gl_after_wood, OF gray]
  have "\<exists>g'. CreateGLTexture stbi0 ''Textures/gray.png'' ''gray'' wood_scene gl_after_wood =
           Inr (False, wood_scene, g')"
    by simp
  moreover
  from CreateGLTexture_by_channels [where stbi_load = stbi0 and filename = "''Textures/clouds.png''"
      and tg = "''clouds''" and sm = wood_scene and g = gl_after_wood, OF clouds] t
  have "\<exists>sm' g'. CreateGLTexture stbi0 ''Textures/clouds.png'' ''clouds'' wood_scene gl_after_wood =
           Inr (True, sm', g') \<and>
           texture_table sm' = [\<lparr> ID = 1, tag = ''wood'' \<rparr>, \<lparr> ID = 2, tag = ''clouds'' \<rparr>]"
    by auto
  ultimately show ?thesis by blast
qed

text \<open>
  C7 as stated does not hold for every 4-channel image: with sixteen textures
  loaded, the store \<^verbatim>\<open>m_textureIDs[m_loadedTextures]\<close> is outside the array, and
  the call neither returns \<^verbatim>\<open>true\<close> nor appends an entry.
\<close>

theorem CreateGLTexture_full_table:
  "stbi0 ''Textures/clouds.png'' = Some \<lparr> width = 256, height = 128, colorChannels = 4 \<rparr> \<and>
   m_loadedTextures full_scene = 16 \<and>
   CreateGLTexture stbi0 ''Textures/clouds.png'' ''clouds'' full_scene gl0 =
     Inl ArrayIndexOutOfBounds"
  by (simp add: stbi0_def full_scene_def CreateGLTexture_def register_texture_def
      gen_texture_def gl_def SceneManager_ctor_def Let_def)

section \<open>Teardown\<close>

text \<open>
  The OpenGL calls of \<^verbatim>\<open>DestroyGLTextures\<close> are one \<^verbatim>\<open>glGenTextures\<close> per loaded
  texture, and nothing else.
\<close>

lemma DestroyGLTextures_loop_generates:
  assumes "m_loadedTextures sm \<le> length (m_textureIDs sm)"
  shows "\<exists>sm' g'. DestroyGLTextures_loop i sm g = Inr (sm', g') \<and>
           gl_calls g' =
             gl_calls g @ map (\<lambda>j. glGenTextures (gl_next g + int j)) [0..<m_loadedTextures sm - i]"
  using assms
proof (induction "m_loadedTextures sm - i" arbitrary: i sm g)
  case 0
  then show ?case
    by (subst DestroyGLTextures_loop.simps) simp
next
  case (Suc d)
  then have lt: "i < m_loadedTextures sm" by simp
  let ?sm1 = "sm\<lparr> m_textureIDs := (m_textureIDs sm)[i := (m_textureIDs sm ! i)\<lparr> ID := gl_next g \<rparr>] \<rparr>"
  let ?g1 = "g\<lparr> gl_calls := gl_calls g @ [glGenTextures (gl_next g)], gl_next := gl_next g + 1 \<rparr>"
  from Suc.hyps(2) have d: "d = m_loadedTextures ?sm1 - (i + 1)" by simp
  from Suc.prems have "m_loadedTextures ?sm1 \<le> length (m_textureIDs ?sm1)" by simp
  from Suc.hyps(1) [OF d this, of ?g1] obtain sm' g' where
    rest: "DestroyGLTextures_loop (i + 1) ?sm1 ?g1 = Inr (sm', g')" and
    calls: "gl_calls g' = gl_calls ?g1 @
      map (\<lambda>j. glGenTextures (gl_next ?g1 + int j)) [0..<m_loadedTextures ?sm1 - (i + 1)]"
    by blast
  from lt Suc.prems rest have "DestroyGLTextures_loop i sm g = Inr (sm', g')"
    by (subst DestroyGLTextures_loop.simps) (simp add: gen_texture_def)
  moreover have "gl_calls g' =
      gl_calls g @ map (\<lambda>j. glGenTextures (gl_next g + int j)) [0..<m_loadedTextures sm - i]"
  proof -
    from Suc.hyps(2) d have n: "m_loadedTextures sm - i = Suc d" "m_loadedTextures ?sm1 - (i + 1) = d"
      by simp_all
    have "map (\<lambda>j. glGenTextures (gl_next g + int j)) [0..<Suc d] =
          glGenTextures (gl_next g) # map (\<lambda>j. glGenTextures (gl_next g + 1 + int j)) [0..<d]"
      by (simp add: upt_conv_Cons map_Suc_upt [symmetric] del: upt_Suc)
    with calls n show ?thesis by simp
  qed
  ultimately show ?case by blast
qed

text \<open>
  C9. The claim: at teardown the registry releases the OpenGL handle of every loaded
  texture. The code on the scene that holds the texture "wood" under the name 1: the
  destructor clears the two pointers, and its one OpenGL call is
  \<^verbatim>\<open>glGenTextures\<close>, which allocates the new name 2 and stores it in the entry; the
  name 1 is not released.
\<close>

theorem destructor_generates_texture_names:
  "SceneManager_dtor wood_scene gl_after_wood =
     Inr (wood_scene\<lparr> m_pShaderManager := None, m_basicMeshes := None,
                      m_textureIDs := (m_textureIDs wood_scene)[0 := \<lparr> ID = 2, tag = ''wood'' \<rparr>] \<rparr>,
          gl_after_wood\<lparr> gl_calls := gl_calls gl_after_wood @ [glGenTextures 2], gl_next := 3 \<rparr>)"
  by (simp add: SceneManager_dtor_def DestroyGLTextures_def DestroyGLTextures_loop.simps
      gen_texture_def wood_scene_textures gl_after_wood_def)

end
